theory Spec2Isabelle
  imports Complex_Main "HOL-Library.Sublist"
begin

section \<open>Data model of \<^verbatim>\<open>src/main.ts\<close>\<close>

text \<open>
  The application keeps its state in module-level variables and in the DOM. The model
  gathers them in one record that every function takes and returns. A
  \<^verbatim>\<open>Float32Array\<close> (and the \<^verbatim>\<open>number[]\<close> made from it by
  \<^verbatim>\<open>Array.from\<close>) is a list of numbers; the numbers are idealised as reals.
  \<^verbatim>\<open>loadModels\<close> and \<^verbatim>\<open>main\<close> only prepare the state in which the handlers run;
  they are represented by the states \<open>unloaded_state\<close> and \<open>ready_state\<close> below.
\<close>

type_synonym vec = "real list"

text \<open>Values that the external collaborators throw; \<open>show_error\<close> is their rendering
  inside a template string.\<close>

datatype error =
    NotInitialized | DimensionMismatch | IOFailure | InitFailure
  | EncodeFailure | UnsupportedFormat | ClearFailure

fun show_error :: "error \<Rightarrow> string" where
  "show_error NotInitialized = ''NotInitialized''"
| "show_error DimensionMismatch = ''DimensionMismatch''"
| "show_error IOFailure = ''IOFailure''"
| "show_error InitFailure = ''InitFailure''"
| "show_error EncodeFailure = ''EncodeFailure''"
| "show_error UnsupportedFormat = ''UnsupportedFormat''"
| "show_error ClearFailure = ''ClearFailure''"

text \<open>A browser \<^verbatim>\<open>File\<close>: the two properties the code reads.\<close>

record jsfile =
  name :: string
  ftype :: string

text \<open>The object handed to \<^verbatim>\<open>db.insert\<close> and found again in a query result.\<close>

record vobject =
  content :: string
  embedding :: vec
  tags :: "string list"

text \<open>An element of the array that \<^verbatim>\<open>searchDB\<close> returns.\<close>

record query_result =
  object :: vobject
  similarity :: real
  key :: nat

text \<open>The IndexedDB database named \<^verbatim>\<open>DB_NAME\<close>: its rows in key order and the next
  key of its auto-incrementing object store.\<close>

record collection =
  records :: "(nat \<times> vobject) list"
  nextKey :: nat

text \<open>The \<^verbatim>\<open>VectorDB\<close> object held in \<^verbatim>\<open>db\<close>: the options of its constructor.\<close>

record vectordb =
  vectorPath :: string
  dbName :: string

datatype level = Log | Warn | Error

text \<open>What \<^verbatim>\<open>displayResults\<close> puts into \<^verbatim>\<open>searchResultsList\<close>.\<close>

datatype list_item =
    NoResults
  | Header nat string string
  | ResultItem string real

text \<open>A model object returned by \<^verbatim>\<open>from_pretrained\<close>, known by the name it was
  loaded from.\<close>

datatype model = Pretrained string

record app_state =
  tokenizer :: "model option"
  textModel :: "model option"
  audioProcessor :: "model option"
  audioModel :: "model option"
  db :: "vectordb option"
  backing :: "collection option"
  objectURLs :: "nat list"
  embedAudioButton_disabled :: bool
  searchButton_disabled :: bool
  searchAudioButton_disabled :: bool
  clearDbButton_disabled :: bool
  textSearchInput_disabled :: bool
  audioFolderInput_disabled :: bool
  audioSearchInput_disabled :: bool
  audioFolderInput_files :: "jsfile list"
  textSearchInput_value :: string
  audioSearchInput_files :: "jsfile list"
  modelStatus :: string
  modelStatus_color :: string
  audioEmbedStatus :: string
  dbStatus :: string
  searchResultsList :: "list_item list"
  console :: "(level \<times> string) list"
  alerts :: "string list"

text \<open>
  The collaborators that \<^verbatim>\<open>main.ts\<close> imports and calls, as parameters:
  \<^item> \<open>text_embed\<close>: \<^verbatim>\<open>tokenizer(text, ...)\<close> followed by \<^verbatim>\<open>textModel(text_inputs)\<close>;
  \<^item> \<open>audio_embed\<close>: \<^verbatim>\<open>read_audio(objectUrl, 44100)\<close>, \<^verbatim>\<open>audioProcessor\<close> and
    \<^verbatim>\<open>audioModel\<close> in a row, on the file the object URL stands for;
  \<^item> \<open>metric\<close>: the similarity score that the vector store computes for a query.
  Each of the first two either throws (\<open>Inl\<close>) or yields the embedding data.
\<close>

record env =
  text_embed :: "string \<Rightarrow> error + vec"
  audio_embed :: "jsfile \<Rightarrow> error + vec"
  metric :: "vec \<Rightarrow> vec \<Rightarrow> real"

definition TEXT_MODEL_NAME :: string where
  "TEXT_MODEL_NAME = ''Xenova/clap-htsat-unfused''"

definition AUDIO_MODEL_NAME :: string where
  "AUDIO_MODEL_NAME = ''Xenova/clap-htsat-unfused''"

definition DB_NAME :: string where
  "DB_NAME = ''clap-embeddings-db''"

definition TAG_AUDIO :: string where
  "TAG_AUDIO = ''audio''"

section \<open>Utility functions\<close>

definition console_log :: "string \<Rightarrow> app_state \<Rightarrow> app_state" where
  "console_log m s = s\<lparr>console := console s @ [(Log, m)]\<rparr>"

definition console_warn :: "string \<Rightarrow> app_state \<Rightarrow> app_state" where
  "console_warn m s = s\<lparr>console := console s @ [(Warn, m)]\<rparr>"

definition console_error :: "string \<Rightarrow> app_state \<Rightarrow> app_state" where
  "console_error m s = s\<lparr>console := console s @ [(Error, m)]\<rparr>"

definition alert :: "string \<Rightarrow> app_state \<Rightarrow> app_state" where
  "alert m s = s\<lparr>alerts := alerts s @ [m]\<rparr>"

definition updateModelStatus :: "string \<Rightarrow> bool \<Rightarrow> app_state \<Rightarrow> app_state" where
  "updateModelStatus message loaded s =
     console_log message
       (s\<lparr>modelStatus := message,
          modelStatus_color := (if loaded then ''green'' else modelStatus_color s)\<rparr>)"

definition updateAudioEmbedStatus :: "string \<Rightarrow> app_state \<Rightarrow> app_state" where
  "updateAudioEmbedStatus message s = console_log message (s\<lparr>audioEmbedStatus := message\<rparr>)"

definition updateDbStatus :: "string \<Rightarrow> app_state \<Rightarrow> app_state" where
  "updateDbStatus message s = console_log message (s\<lparr>dbStatus := message\<rparr>)"

definition disableControls :: "bool \<Rightarrow> app_state \<Rightarrow> app_state" where
  "disableControls disabled s =
     s\<lparr>embedAudioButton_disabled := disabled,
       searchButton_disabled := disabled,
       searchAudioButton_disabled := disabled,
       clearDbButton_disabled := disabled,
       textSearchInput_disabled := disabled,
       audioFolderInput_disabled := disabled,
       audioSearchInput_disabled := disabled\<rparr>"

text \<open>Decimal rendering of a number inside a template string.\<close>

definition digit :: "nat \<Rightarrow> char" where
  "digit d = ''0123456789'' ! d"

function show_nat :: "nat \<Rightarrow> string" where
  "show_nat n = (if n < 10 then [digit n] else show_nat (n div 10) @ [digit (n mod 10)])"
  by pat_completeness auto
termination
  by (relation "measure id") auto

declare show_nat.simps [simp del]

section \<open>The vector store behind \<^verbatim>\<open>db\<close>\<close>

text \<open>
  \<^verbatim>\<open>VectorDB\<close> comes from the package \<^verbatim>\<open>idb-vector\<close>, whose code is not part of
  this repository. The definitions of this section that stand for it are therefore
  written from the specification (sections 3, 4.1, 4.2 and 6), not from code. They fail
  for the reasons that the contract ties to their arguments (no initialised store, a vector
  of the wrong dimension); a fault of the persistence layer itself is not part of the model.
\<close>

text \<open>Modelled from the spec: the dimensionality D that the store has established, missing
  with the rest of \<^verbatim>\<open>idb-vector\<close>. ``All vectors in one store instance share the same D'':
  D is the length of the vectors present, and an empty store has none yet.\<close>

definition store_dim :: "collection \<Rightarrow> nat option" where
  "store_dim c = (case records c of [] \<Rightarrow> None | r # _ \<Rightarrow> Some (length (embedding (snd r))))"

text \<open>Modelled from the spec: \<^verbatim>\<open>initialize\<close> of the store (\<^verbatim>\<open>new VectorDB(...)\<close> of
  \<^verbatim>\<open>idb-vector\<close>, missing from the repository). It ``opens or creates the backing
  persistent collection'' and is ``idempotent if already open''; \<open>fault\<close> is the
  \<^verbatim>\<open>InitFailure\<close> it may end with instead. Keys start at 1, as in the spec's example.\<close>

definition store_initialize :: "error option \<Rightarrow> collection option \<Rightarrow> error + collection option" where
  "store_initialize fault b =
     (case fault of
        Some e \<Rightarrow> Inl e
      | None \<Rightarrow>
          (case b of
             None \<Rightarrow> Inr (Some \<lparr>records = [], nextKey = 1\<rparr>)
           | Some c \<Rightarrow> Inr (Some c)))"

text \<open>Modelled from the spec: \<^verbatim>\<open>insert\<close> of the store (\<^verbatim>\<open>db.insert\<close> of
  \<^verbatim>\<open>idb-vector\<close>, missing from the repository). It ``appends a new record, assigns the next
  key''; it requires an initialised store, and a vector whose length is not the
  established D is rejected with \<^verbatim>\<open>DimensionMismatch\<close>.\<close>

definition store_insert :: "vobject \<Rightarrow> collection option \<Rightarrow> error + (nat \<times> collection)" where
  "store_insert ob b =
     (case b of
        None \<Rightarrow> Inl NotInitialized
      | Some c \<Rightarrow>
          if store_dim c \<noteq> None \<and> store_dim c \<noteq> Some (length (embedding ob))
          then Inl DimensionMismatch
          else Inr (nextKey c,
                    c\<lparr>records := records c @ [(nextKey c, ob)], nextKey := Suc (nextKey c)\<rparr>))"

text \<open>Modelled from the spec: the order in which \<^verbatim>\<open>rank\<close> sorts (inside \<^verbatim>\<open>db.query\<close> of
  \<^verbatim>\<open>idb-vector\<close>, missing from the repository), ``descending by similarity; ties broken by
  ascending key'': higher similarity first, the smaller key first among equal
  similarities. The sort itself is an insertion sort by that order.\<close>

definition ranks_before :: "query_result \<Rightarrow> query_result \<Rightarrow> bool" where
  "ranks_before a b \<longleftrightarrow>
     similarity b < similarity a \<or> (similarity a = similarity b \<and> key a \<le> key b)"

fun insert_ranked :: "query_result \<Rightarrow> query_result list \<Rightarrow> query_result list" where
  "insert_ranked x [] = [x]"
| "insert_ranked x (y # ys) = (if ranks_before x y then x # y # ys else y # insert_ranked x ys)"

fun sort_ranked :: "query_result list \<Rightarrow> query_result list" where
  "sort_ranked [] = []"
| "sort_ranked (x # xs) = insert_ranked x (sort_ranked xs)"

text \<open>Modelled from the spec: the \<^verbatim>\<open>QueryResult\<close> of one stored row (built inside
  \<^verbatim>\<open>db.query\<close> of \<^verbatim>\<open>idb-vector\<close>, missing from the repository): the row, its key and
  its similarity to the query vector.\<close>

definition scored :: "(vec \<Rightarrow> vec \<Rightarrow> real) \<Rightarrow> vec \<Rightarrow> nat \<times> vobject \<Rightarrow> query_result" where
  "scored sim q r = \<lparr>object = snd r, similarity = sim q (embedding (snd r)), key = fst r\<rparr>"

text \<open>Modelled from the spec: \<^verbatim>\<open>rank\<close> of the query engine (\<^verbatim>\<open>db.query\<close> of
  \<^verbatim>\<open>idb-vector\<close>, missing from the repository). It scores every record against the query
  vector, sorts ``descending by similarity; ties broken by ascending key'' and returns the
  top \<open>k\<close>; it rejects an empty query vector and one whose dimension is not the store's D.
  The similarity metric is the parameter \<open>sim\<close>.\<close>

definition store_query ::
  "(vec \<Rightarrow> vec \<Rightarrow> real) \<Rightarrow> vec \<Rightarrow> nat \<Rightarrow> collection option \<Rightarrow> error + query_result list" where
  "store_query sim q k b =
     (case b of
        None \<Rightarrow> Inl NotInitialized
      | Some c \<Rightarrow>
          if q = [] \<or> (store_dim c \<noteq> None \<and> store_dim c \<noteq> Some (length q))
          then Inl DimensionMismatch
          else Inr (take k (sort_ranked (map (scored sim q) (records c)))))"

text \<open>Modelled from the spec: the dot product and the norm of the similarity metric (computed
  inside \<^verbatim>\<open>db.query\<close> of \<^verbatim>\<open>idb-vector\<close>, missing from the repository), over the numbers
  idealised as reals. Vectors of different lengths are paired up to the shorter one.\<close>

definition dot :: "vec \<Rightarrow> vec \<Rightarrow> real" where
  "dot a b = sum_list (map2 (*) a b)"

definition vec_norm :: "vec \<Rightarrow> real" where
  "vec_norm a = sqrt (dot a a)"

text \<open>Modelled from the spec: the similarity metric of the query engine (inside \<^verbatim>\<open>db.query\<close>
  of \<^verbatim>\<open>idb-vector\<close>, missing from the repository): ``cosine similarity:
  dot(a,b) / (\<parallel>a\<parallel>\<cdot>\<parallel>b\<parallel>), defined as 0 when either vector has zero norm''. The test for
  a zero norm comes first, so the quotient is only formed with a divisor that is not 0.\<close>

definition cosine_similarity :: "vec \<Rightarrow> vec \<Rightarrow> real" where
  "cosine_similarity a b =
     (if vec_norm a = 0 \<or> vec_norm b = 0 then 0 else dot a b / (vec_norm a * vec_norm b))"

section \<open>Embeddings\<close>

definition getTextEmbedding :: "env \<Rightarrow> string \<Rightarrow> app_state \<Rightarrow> vec option \<times> app_state" where
  "getTextEmbedding e text s =
     (if tokenizer s = None \<or> textModel s = None
      then (None, updateModelStatus ''Text model or tokenizer not loaded.'' False s)
      else
        (case text_embed e text of
           Inr text_embeds \<Rightarrow> (Some text_embeds, s)
         | Inl err \<Rightarrow>
             (None,
              updateModelStatus (''Error creating text embedding: '' @ show_error err) False
                (console_error (''Error getting text embedding: '' @ show_error err) s))))"

text \<open>\<^verbatim>\<open>URL.createObjectURL\<close> registers a URL that no live URL equals;
  \<^verbatim>\<open>URL.revokeObjectURL\<close> takes it out of the registry again.\<close>

definition fresh_url :: "nat list \<Rightarrow> nat" where
  "fresh_url live = Suc (fold max live 0)"

definition createObjectURL :: "app_state \<Rightarrow> nat \<times> app_state" where
  "createObjectURL s =
     (fresh_url (objectURLs s), s\<lparr>objectURLs := objectURLs s @ [fresh_url (objectURLs s)]\<rparr>)"

definition revokeObjectURL :: "nat \<Rightarrow> app_state \<Rightarrow> app_state" where
  "revokeObjectURL u s = s\<lparr>objectURLs := filter (\<lambda>v. v \<noteq> u) (objectURLs s)\<rparr>"

text \<open>The \<^verbatim>\<open>finally\<close> block runs last on both paths: after the \<^verbatim>\<open>return\<close> of the
  \<^verbatim>\<open>try\<close> block and after the \<^verbatim>\<open>catch\<close> block.\<close>

definition getAudioEmbedding :: "env \<Rightarrow> jsfile \<Rightarrow> app_state \<Rightarrow> vec option \<times> app_state" where
  "getAudioEmbedding e audioFile s =
     (if audioProcessor s = None \<or> audioModel s = None
      then (None, updateModelStatus ''Audio model or processor not loaded.'' False s)
      else
        (let (objectUrl, s1) = createObjectURL s in
         case audio_embed e audioFile of
           Inr audio_embeds \<Rightarrow> (Some audio_embeds, revokeObjectURL objectUrl s1)
         | Inl err \<Rightarrow>
             (None,
              revokeObjectURL objectUrl
                (updateModelStatus (''Error creating audio embedding: '' @ show_error err) False
                   (console_error (''Error getting audio embedding: '' @ show_error err) s1)))))"

section \<open>Database operations\<close>

definition initVectorDB :: "error option \<Rightarrow> app_state \<Rightarrow> app_state" where
  "initVectorDB fault s =
     (let s1 = updateDbStatus ''Initializing vector database...'' (disableControls True s) in
      case store_initialize fault (backing s1) of
        Inr b \<Rightarrow>
          disableControls False
            (updateDbStatus ''Vector database initialized.''
               (s1\<lparr>db := Some \<lparr>vectorPath = ''embedding'', dbName = DB_NAME\<rparr>, backing := b\<rparr>))
      | Inl err \<Rightarrow>
          disableControls True
            (updateDbStatus
               ''Failed to initialize vector database. App will not function correctly.''
               (console_warn ''Db constructor failed. Attempting Db.new() as fallback'' s1)))"

definition insertIntoDB :: "string \<Rightarrow> vec \<Rightarrow> string list \<Rightarrow> app_state \<Rightarrow> app_state" where
  "insertIntoDB cont emb tgs s =
     (if db s = None then updateDbStatus ''Database not initialized.'' s
      else
        (case store_insert \<lparr>content = cont, embedding = emb, tags = tgs\<rparr> (backing s) of
           Inr (k, c) \<Rightarrow> console_log (''Inserted: '' @ cont) (s\<lparr>backing := Some c\<rparr>)
         | Inl err \<Rightarrow>
             console_error (''DB insert error: '' @ show_error err)
               (updateDbStatus (''Error inserting into DB: '' @ show_error err) s)))"

definition searchDB :: "env \<Rightarrow> vec \<Rightarrow> nat \<Rightarrow> app_state \<Rightarrow> query_result list \<times> app_state" where
  "searchDB e emb k s =
     (if db s = None then ([], updateDbStatus ''Database not initialized.'' s)
      else if emb = [] then ([], updateModelStatus ''Cannot search with empty embedding.'' False s)
      else
        (case store_query (metric e) emb k (backing s) of
           Inr results \<Rightarrow> (results, console_log ''Search results:'' s)
         | Inl err \<Rightarrow>
             ([],
              console_error (''DB search error: '' @ show_error err)
                (updateDbStatus (''Error searching DB: '' @ show_error err) s))))"

text \<open>
  \<^verbatim>\<open>clearDB\<close> issues \<^verbatim>\<open>indexedDB.deleteDatabase(DB_NAME)\<close> and returns; the request
  settles later through one of three callbacks. \<open>clearDB_begin\<close> is the part that runs
  on the click and tells whether a request was issued; \<open>clearDB_settle\<close> is the callback.
  A blocked request stays pending.
\<close>

datatype delete_outcome = DeleteSuccess | DeleteBlocked | DeleteError error

definition clearDB_begin :: "app_state \<Rightarrow> bool \<times> app_state" where
  "clearDB_begin s =
     (if db s = None
      then (False, console_error ''DB does not exist'' (updateDbStatus ''Database not initialized.'' s))
      else (True, s))"

fun clearDB_settle :: "delete_outcome \<Rightarrow> app_state \<Rightarrow> app_state" where
  "clearDB_settle (DeleteError err) s = updateDbStatus (''Error clearing DB: '' @ show_error err) s"
| "clearDB_settle DeleteBlocked s =
     alert ''Database clearing was blocked, probably due to an open connection.'' s"
| "clearDB_settle DeleteSuccess s =
     (updateDbStatus ''Database cleared.'' (console_log ''Database cleared'' (s\<lparr>backing := None\<rparr>)))
       \<lparr>searchResultsList := []\<rparr>"

definition clearDB :: "delete_outcome \<Rightarrow> app_state \<Rightarrow> app_state" where
  "clearDB outcome s =
     (case clearDB_begin s of
        (False, s1) \<Rightarrow> s1
      | (True, s1) \<Rightarrow> clearDB_settle outcome s1)"

section \<open>UI event handlers\<close>

text \<open>
  Each handler is an \<^verbatim>\<open>async\<close> function: it runs on the click up to its first
  \<^verbatim>\<open>await\<close> and finishes later. \<open>_begin\<close> is the part that runs on the click (the
  guards, and \<^verbatim>\<open>disableControls(true)\<close> when they pass); it returns the local values
  the rest of the handler keeps, or \<open>None\<close> when a guard returned early. \<open>_rest\<close> is
  everything after it. The handler itself is the two in a row.
\<close>

text \<open>The \<^verbatim>\<open>for (const file of files)\<close> loop, with the running \<^verbatim>\<open>count\<close>.
  \<^verbatim>\<open>getAudioEmbedding\<close> and \<^verbatim>\<open>insertIntoDB\<close> catch what their callees throw, so the
  loop's own \<^verbatim>\<open>catch\<close> block is never entered. A \<^verbatim>\<open>Float32Array\<close> is an object,
  hence truthy whatever its length: \<^verbatim>\<open>if (embedding)\<close> only tests for \<^verbatim>\<open>null\<close>.\<close>

fun embed_loop :: "env \<Rightarrow> nat \<Rightarrow> jsfile list \<Rightarrow> nat \<Rightarrow> app_state \<Rightarrow> nat \<times> app_state" where
  "embed_loop e n [] count s = (count, s)"
| "embed_loop e n (f # fs) count s =
     (if prefix ''audio/'' (ftype f) then
        (let s1 = updateAudioEmbedStatus
                    (''Embedding '' @ name f @ ''... ('' @ show_nat (count + 1) @ ''/''
                       @ show_nat n @ '')'') s;
             (emb, s2) = getAudioEmbedding e f s1
         in case emb of
              Some v \<Rightarrow>
                embed_loop e n fs (count + 1) (insertIntoDB (name f) v [TAG_AUDIO, ftype f] s2)
            | None \<Rightarrow> embed_loop e n fs count s2)
      else
        embed_loop e n fs count
          (updateAudioEmbedStatus (''Skipping non-audio file: '' @ name f) s))"

definition handleEmbedAudioFolder_begin :: "app_state \<Rightarrow> jsfile list option \<times> app_state" where
  "handleEmbedAudioFolder_begin s =
     (if audioFolderInput_files s = []
      then (None, updateAudioEmbedStatus ''No folder/files selected.'' s)
      else if audioModel s = None \<or> audioProcessor s = None \<or> db s = None
      then (None, updateAudioEmbedStatus ''Models or DB not ready.'' s)
      else
        (Some (audioFolderInput_files s),
         updateAudioEmbedStatus
           (''Processing '' @ show_nat (length (audioFolderInput_files s)) @ '' files...'')
           (disableControls True s)))"

definition handleEmbedAudioFolder_rest :: "env \<Rightarrow> jsfile list \<Rightarrow> app_state \<Rightarrow> app_state" where
  "handleEmbedAudioFolder_rest e files s =
     (let (count, s1) = embed_loop e (length files) files 0 s in
      disableControls False
        (updateAudioEmbedStatus (''Finished embedding '' @ show_nat count @ '' audio files.'') s1))"

definition handleEmbedAudioFolder :: "env \<Rightarrow> app_state \<Rightarrow> app_state" where
  "handleEmbedAudioFolder e s =
     (case handleEmbedAudioFolder_begin s of
        (None, s1) \<Rightarrow> s1
      | (Some files, s1) \<Rightarrow> handleEmbedAudioFolder_rest e files s1)"

definition displayResults :: "query_result list \<Rightarrow> string \<Rightarrow> string \<Rightarrow> app_state \<Rightarrow> app_state" where
  "displayResults results ty query s =
     (if results = [] then s\<lparr>searchResultsList := [NoResults]\<rparr>
      else
        s\<lparr>searchResultsList :=
             Header (length results) ty query
               # map (\<lambda>r. ResultItem (content (object r)) (similarity r)) results\<rparr>)"

text \<open>\<^verbatim>\<open>String.prototype.trim\<close> strips the white space and the line terminators of
  ECMAScript at both ends. A string of the model holds code units below 256; among these
  the white space is TAB, VT, FF, SP and NBSP (\<open>0xA0\<close>), and the line terminators are LF
  and CR.\<close>

definition is_space :: "char \<Rightarrow> bool" where
  "is_space c \<longleftrightarrow>
     c \<in> set [CHR 0x09, CHR 0x0A, CHR 0x0B, CHR 0x0C, CHR 0x0D, CHR 0x20, CHR 0xA0]"

definition trim :: "string \<Rightarrow> string" where
  "trim str = rev (dropWhile is_space (rev (dropWhile is_space str)))"

definition handleTextSearch_begin :: "app_state \<Rightarrow> string option \<times> app_state" where
  "handleTextSearch_begin s =
     (let query = trim (textSearchInput_value s) in
      if query = [] then (None, alert ''Please enter a search query.'' s)
      else if textModel s = None \<or> tokenizer s = None \<or> db s = None
      then (None, updateModelStatus ''Models or DB not ready for search.'' False s)
      else
        (Some query,
         updateModelStatus ''Generating text embedding for search...'' False
           (disableControls True s)))"

definition handleTextSearch_rest :: "env \<Rightarrow> string \<Rightarrow> app_state \<Rightarrow> app_state" where
  "handleTextSearch_rest e query s =
     (let (emb, s1) = getTextEmbedding e query s in
      disableControls False
        (case emb of
           Some v \<Rightarrow>
             (let (results, s2) = searchDB e v 10 (updateModelStatus ''Searching database...'' False s1)
              in updateModelStatus ''Search complete.'' True (displayResults results ''text'' query s2))
         | None \<Rightarrow> updateModelStatus ''Failed to generate embedding for search.'' False s1))"

definition handleTextSearch :: "env \<Rightarrow> app_state \<Rightarrow> app_state" where
  "handleTextSearch e s =
     (case handleTextSearch_begin s of
        (None, s1) \<Rightarrow> s1
      | (Some query, s1) \<Rightarrow> handleTextSearch_rest e query s1)"

definition handleAudioFileSearch_begin :: "app_state \<Rightarrow> jsfile option \<times> app_state" where
  "handleAudioFileSearch_begin s =
     (case audioSearchInput_files s of
        [] \<Rightarrow> (None, alert ''Please select an audio file to search with.'' s)
      | audioFile # _ \<Rightarrow>
          if audioModel s = None \<or> audioProcessor s = None \<or> db s = None
          then (None, updateModelStatus ''Models or DB not ready for search.'' False s)
          else
            (Some audioFile,
             updateModelStatus (''Generating audio embedding for '' @ name audioFile @ ''...'') False
               (disableControls True s)))"

definition handleAudioFileSearch_rest :: "env \<Rightarrow> jsfile \<Rightarrow> app_state \<Rightarrow> app_state" where
  "handleAudioFileSearch_rest e audioFile s =
     (let (emb, s1) = getAudioEmbedding e audioFile s in
      disableControls False
        (case emb of
           Some v \<Rightarrow>
             (let (results, s2) =
                    searchDB e v 10
                      (updateModelStatus ''Searching database with audio query...'' False s1)
              in updateModelStatus ''Audio search complete.'' True
                   (displayResults results ''audio'' (name audioFile) s2))
         | None \<Rightarrow>
             updateModelStatus ''Failed to generate embedding for audio search.'' False s1))"

definition handleAudioFileSearch :: "env \<Rightarrow> app_state \<Rightarrow> app_state" where
  "handleAudioFileSearch e s =
     (case handleAudioFileSearch_begin s of
        (None, s1) \<Rightarrow> s1
      | (Some audioFile, s1) \<Rightarrow> handleAudioFileSearch_rest e audioFile s1)"

section \<open>The page as an event-driven system\<close>

text \<open>
  The four listeners registered at the end of \<^verbatim>\<open>main.ts\<close> make every click on a button
  start its handler. A disabled button dispatches no click event, which is all that keeps
  a handler from starting: no handler looks at what is in flight. A system state is the
  application state together with the operations that have begun and not yet finished,
  each with the local values it holds on to.
\<close>

datatype task =
    EmbedTask "jsfile list"
  | TextSearchTask string
  | AudioSearchTask jsfile
  | ClearTask

datatype button = EmbedAudioButton | SearchButton | SearchAudioButton | ClearDbButton

record sys =
  app :: app_state
  running :: "task list"

fun button_disabled :: "button \<Rightarrow> app_state \<Rightarrow> bool" where
  "button_disabled EmbedAudioButton s = embedAudioButton_disabled s"
| "button_disabled SearchButton s = searchButton_disabled s"
| "button_disabled SearchAudioButton s = searchAudioButton_disabled s"
| "button_disabled ClearDbButton s = clearDbButton_disabled s"

text \<open>What a button's listener begins: the new application state and the task now in
  flight, if any.\<close>

fun listener :: "button \<Rightarrow> app_state \<Rightarrow> task option \<times> app_state" where
  "listener EmbedAudioButton s =
     (case handleEmbedAudioFolder_begin s of (r, s1) \<Rightarrow> (map_option EmbedTask r, s1))"
| "listener SearchButton s =
     (case handleTextSearch_begin s of (r, s1) \<Rightarrow> (map_option TextSearchTask r, s1))"
| "listener SearchAudioButton s =
     (case handleAudioFileSearch_begin s of (r, s1) \<Rightarrow> (map_option AudioSearchTask r, s1))"
| "listener ClearDbButton s =
     (case clearDB_begin s of (issued, s1) \<Rightarrow> ((if issued then Some ClearTask else None), s1))"

definition click :: "button \<Rightarrow> sys \<Rightarrow> sys" where
  "click b y =
     (if button_disabled b (app y) then y
      else
        (case listener b (app y) of
           (None, s1) \<Rightarrow> y\<lparr>app := s1\<rparr>
         | (Some t, s1) \<Rightarrow> \<lparr>app = s1, running = running y @ [t]\<rparr>))"

text \<open>A task in flight runs to its end; a delete request that is blocked stays pending.\<close>

fun finish :: "env \<Rightarrow> delete_outcome \<Rightarrow> task \<Rightarrow> app_state \<Rightarrow> app_state" where
  "finish e outcome (EmbedTask files) s = handleEmbedAudioFolder_rest e files s"
| "finish e outcome (TextSearchTask query) s = handleTextSearch_rest e query s"
| "finish e outcome (AudioSearchTask audioFile) s = handleAudioFileSearch_rest e audioFile s"
| "finish e outcome ClearTask s = clearDB_settle outcome s"

definition settle :: "env \<Rightarrow> delete_outcome \<Rightarrow> task \<Rightarrow> sys \<Rightarrow> sys" where
  "settle e outcome t y =
     (if t \<notin> set (running y) then y
      else
        \<lparr>app = finish e outcome t (app y),
         running = (if t = ClearTask \<and> outcome = DeleteBlocked then running y
                    else remove1 t (running y))\<rparr>)"

text \<open>The events of the page: a click on a button, and the end of a task in flight (for the
  delete request, with its outcome). A run of the page takes them one after the other.\<close>

datatype event = Click button | Settle delete_outcome task

fun step :: "env \<Rightarrow> event \<Rightarrow> sys \<Rightarrow> sys" where
  "step e (Click b) y = click b y"
| "step e (Settle outcome t) y = settle e outcome t y"

fun run :: "env \<Rightarrow> event list \<Rightarrow> sys \<Rightarrow> sys" where
  "run e [] y = y"
| "run e (ev # evs) y = run e evs (step e ev y)"

text \<open>Every control of the page is disabled.\<close>

definition all_disabled :: "app_state \<Rightarrow> bool" where
  "all_disabled s \<longleftrightarrow>
     embedAudioButton_disabled s \<and> searchButton_disabled s \<and> searchAudioButton_disabled s
     \<and> clearDbButton_disabled s \<and> textSearchInput_disabled s \<and> audioFolderInput_disabled s
     \<and> audioSearchInput_disabled s"

text \<open>The discipline that the embed and search handlers keep: nothing is in flight, or one
  task that is not the delete request, with every control disabled.\<close>

definition one_at_a_time :: "sys \<Rightarrow> bool" where
  "one_at_a_time y \<longleftrightarrow>
     running y = [] \<or> (\<exists>t. running y = [t] \<and> t \<noteq> ClearTask \<and> all_disabled (app y))"

text \<open>A state as \<^verbatim>\<open>main()\<close> leaves it when the store and the four models have loaded:
  every control enabled, nothing in flight.\<close>

definition ready_state :: app_state where
  "ready_state =
     \<lparr>tokenizer = Some (Pretrained TEXT_MODEL_NAME),
      textModel = Some (Pretrained TEXT_MODEL_NAME),
      audioProcessor = Some (Pretrained AUDIO_MODEL_NAME),
      audioModel = Some (Pretrained AUDIO_MODEL_NAME),
      db = Some \<lparr>vectorPath = ''embedding'', dbName = DB_NAME\<rparr>,
      backing = Some \<lparr>records = [], nextKey = 1\<rparr>,
      objectURLs = [],
      embedAudioButton_disabled = False,
      searchButton_disabled = False,
      searchAudioButton_disabled = False,
      clearDbButton_disabled = False,
      textSearchInput_disabled = False,
      audioFolderInput_disabled = False,
      audioSearchInput_disabled = False,
      audioFolderInput_files = [],
      textSearchInput_value = [],
      audioSearchInput_files = [],
      modelStatus = ''All models loaded successfully!'',
      modelStatus_color = ''green'',
      audioEmbedStatus = [],
      dbStatus = ''Vector database initialized.'',
      searchResultsList = [],
      console = [],
      alerts = []\<rparr>"

section \<open>The batch run for any \<^verbatim>\<open>db.insert\<close>\<close>

text \<open>
  What \<^verbatim>\<open>db.insert\<close> does with a write is not decided in \<^verbatim>\<open>main.ts\<close>: it returns, or
  it throws and the \<^verbatim>\<open>catch\<close> block of \<^verbatim>\<open>insertIntoDB\<close> takes over. The three functions
  below are \<^verbatim>\<open>insertIntoDB\<close>, the loop and \<^verbatim>\<open>handleEmbedAudioFolder\<close> once more, word for
  word, with \<^verbatim>\<open>db.insert\<close> as the parameter \<open>ins\<close>; with \<open>store_insert\<close> for \<open>ins\<close> they
  are the functions above.
\<close>

type_synonym insert_op = "vobject \<Rightarrow> collection option \<Rightarrow> error + (nat \<times> collection)"

definition insertIntoDB_via ::
  "insert_op \<Rightarrow> string \<Rightarrow> vec \<Rightarrow> string list \<Rightarrow> app_state \<Rightarrow> app_state" where
  "insertIntoDB_via ins cont emb tgs s =
     (if db s = None then updateDbStatus ''Database not initialized.'' s
      else
        (case ins \<lparr>content = cont, embedding = emb, tags = tgs\<rparr> (backing s) of
           Inr (k, c) \<Rightarrow> console_log (''Inserted: '' @ cont) (s\<lparr>backing := Some c\<rparr>)
         | Inl err \<Rightarrow>
             console_error (''DB insert error: '' @ show_error err)
               (updateDbStatus (''Error inserting into DB: '' @ show_error err) s)))"

fun embed_loop_via ::
  "insert_op \<Rightarrow> env \<Rightarrow> nat \<Rightarrow> jsfile list \<Rightarrow> nat \<Rightarrow> app_state \<Rightarrow> nat \<times> app_state" where
  "embed_loop_via ins e n [] count s = (count, s)"
| "embed_loop_via ins e n (f # fs) count s =
     (if prefix ''audio/'' (ftype f) then
        (let s1 = updateAudioEmbedStatus
                    (''Embedding '' @ name f @ ''... ('' @ show_nat (count + 1) @ ''/''
                       @ show_nat n @ '')'') s;
             (emb, s2) = getAudioEmbedding e f s1
         in case emb of
              Some v \<Rightarrow>
                embed_loop_via ins e n fs (count + 1)
                  (insertIntoDB_via ins (name f) v [TAG_AUDIO, ftype f] s2)
            | None \<Rightarrow> embed_loop_via ins e n fs count s2)
      else
        embed_loop_via ins e n fs count
          (updateAudioEmbedStatus (''Skipping non-audio file: '' @ name f) s))"

definition handleEmbedAudioFolder_via :: "insert_op \<Rightarrow> env \<Rightarrow> app_state \<Rightarrow> app_state" where
  "handleEmbedAudioFolder_via ins e s =
     (case handleEmbedAudioFolder_begin s of
        (None, s1) \<Rightarrow> s1
      | (Some files, s1) \<Rightarrow>
          (let (count, s2) = embed_loop_via ins e (length files) files 0 s1 in
           disableControls False
             (updateAudioEmbedStatus
                (''Finished embedding '' @ show_nat count @ '' audio files.'') s2)))"

section \<open>Vocabulary of the batch run\<close>

text \<open>The objects that one run over \<open>files\<close> hands to \<^verbatim>\<open>insertIntoDB\<close>, in the order of
  the calls: one for each file of an audio media type whose embedding does not fail.\<close>

fun batch_objects :: "env \<Rightarrow> jsfile list \<Rightarrow> vobject list" where
  "batch_objects e [] = []"
| "batch_objects e (f # fs) =
     (if prefix ''audio/'' (ftype f) then
        (case audio_embed e f of
           Inr v \<Rightarrow> \<lparr>content = name f, embedding = v, tags = [TAG_AUDIO, ftype f]\<rparr> # batch_objects e fs
         | Inl err \<Rightarrow> batch_objects e fs)
      else batch_objects e fs)"

text \<open>What the guards of \<^verbatim>\<open>handleEmbedAudioFolder\<close> ask of the models and the store.\<close>

definition loop_ready :: "app_state \<Rightarrow> bool" where
  "loop_ready s \<longleftrightarrow> audioProcessor s \<noteq> None \<and> audioModel s \<noteq> None \<and> db s \<noteq> None"

text \<open>One insert whose failure is not propagated: the store after it.\<close>

definition try_insert :: "collection option \<Rightarrow> vobject \<Rightarrow> collection option" where
  "try_insert b ob = (case store_insert ob b of Inr (k, c) \<Rightarrow> Some c | Inl err \<Rightarrow> b)"

text \<open>The contract of an insert operation that the batch run relies on when it counts
  records: an insert that succeeds on an existing collection leaves it one record longer.\<close>

definition appends_one :: "insert_op \<Rightarrow> bool" where
  "appends_one ins \<longleftrightarrow>
     (\<forall>ob c0 k c. ins ob (Some c0) = Inr (k, c) \<longrightarrow> length (records c) = Suc (length (records c0)))"

text \<open>The insert failures on record: the lines that the \<^verbatim>\<open>catch\<close> block of
  \<^verbatim>\<open>insertIntoDB\<close> has written with \<^verbatim>\<open>console.error\<close>.\<close>

definition insert_errors :: "app_state \<Rightarrow> nat" where
  "insert_errors s =
     length (filter (\<lambda>l. fst l = Error \<and> prefix ''DB insert error: '' (snd l)) (console s))"

text \<open>The number of records in the store.\<close>

definition store_size :: "app_state \<Rightarrow> nat" where
  "store_size s = (case backing s of None \<Rightarrow> 0 | Some c \<Rightarrow> length (records c))"

text \<open>The files of a run that are skipped (no audio media type) and those whose encoding
  fails.\<close>

definition skipped_files :: "jsfile list \<Rightarrow> jsfile list" where
  "skipped_files files = filter (\<lambda>f. \<not> prefix ''audio/'' (ftype f)) files"

definition failed_files :: "env \<Rightarrow> jsfile list \<Rightarrow> jsfile list" where
  "failed_files e files = filter (\<lambda>f. prefix ''audio/'' (ftype f) \<and> isl (audio_embed e f)) files"

text \<open>The encoding errors on record: the lines that the \<^verbatim>\<open>catch\<close> block of
  \<^verbatim>\<open>getAudioEmbedding\<close> has written with \<^verbatim>\<open>console.error\<close>.\<close>

definition embed_errors :: "app_state \<Rightarrow> nat" where
  "embed_errors s =
     length (filter (\<lambda>l. fst l = Error \<and> prefix ''Error getting audio embedding: '' (snd l))
       (console s))"

text \<open>Keys of a collection as an auto-incrementing object store leaves them: strictly
  ascending in row order and below the next key.\<close>

definition keys_ok :: "collection \<Rightarrow> bool" where
  "keys_ok c \<longleftrightarrow>
     sorted_wrt (<) (map fst (records c)) \<and> list_all (\<lambda>k. k < nextKey c) (map fst (records c))"

section \<open>Concrete inputs\<close>

text \<open>A deterministic stub of the collaborators: fixed vectors from the encoders, a file
  that fails to decode, a file whose embedding has another length, and the dot product as
  the metric.\<close>

definition stub_env :: env where
  "stub_env =
     \<lparr>text_embed = (\<lambda>t. Inr [1, 0]),
      audio_embed =
        (\<lambda>f. if name f = ''bad.wav'' then Inl EncodeFailure
             else if name f = ''long.wav'' then Inr [1, 0, 0]
             else Inr [1, 0]),
      metric = (\<lambda>a b. sum_list (map2 (*) a b))\<rparr>"

text \<open>The store of the specification's example: three records with the embeddings
  \<open>[1,0]\<close>, \<open>[0,1]\<close> and \<open>[1,1]\<close> under the keys 1, 2 and 3.\<close>

definition example_collection :: collection where
  "example_collection =
     \<lparr>records =
        [(1, \<lparr>content = ''a'', embedding = [1, 0], tags = [TAG_AUDIO]\<rparr>),
         (2, \<lparr>content = ''b'', embedding = [0, 1], tags = [TAG_AUDIO]\<rparr>),
         (3, \<lparr>content = ''c'', embedding = [1, 1], tags = [TAG_AUDIO]\<rparr>)],
      nextKey = 4\<rparr>"

definition example_state :: app_state where
  "example_state = ready_state\<lparr>backing := Some example_collection\<rparr>"

text \<open>The page before \<^verbatim>\<open>loadModels\<close> has loaded anything: the four model variables
  still hold \<^verbatim>\<open>null\<close>.\<close>

definition unloaded_state :: app_state where
  "unloaded_state =
     ready_state\<lparr>tokenizer := None, textModel := None, audioProcessor := None, audioModel := None\<rparr>"

definition dog_wav :: jsfile where
  "dog_wav = \<lparr>name = ''dog.wav'', ftype = ''audio/wav''\<rparr>"

text \<open>The ready page after the user has picked one audio file in the folder input.\<close>

definition selected_state :: app_state where
  "selected_state = ready_state\<lparr>audioFolderInput_files := [dog_wav]\<rparr>"

definition bad_wav :: jsfile where
  "bad_wav = \<lparr>name = ''bad.wav'', ftype = ''audio/wav''\<rparr>"

definition notes_txt :: jsfile where
  "notes_txt = \<lparr>name = ''notes.txt'', ftype = ''text/plain''\<rparr>"

definition cat_wav :: jsfile where
  "cat_wav = \<lparr>name = ''cat.wav'', ftype = ''audio/wav''\<rparr>"

text \<open>Two selections for a batch run on the ready page. In the first one file is skipped
  and one fails encoding; the second holds two audio files that both embed.\<close>

definition folder_state :: app_state where
  "folder_state = ready_state\<lparr>audioFolderInput_files := [dog_wav, notes_txt, bad_wav, cat_wav]\<rparr>"

definition pair_state :: app_state where
  "pair_state = ready_state\<lparr>audioFolderInput_files := [dog_wav, cat_wav]\<rparr>"

text \<open>A \<^verbatim>\<open>db.insert\<close> whose write of \<^verbatim>\<open>cat.wav\<close> throws, and that stores every other
  object as the store above does.\<close>

definition flaky_insert :: insert_op where
  "flaky_insert ob b = (if content ob = ''cat.wav'' then Inl IOFailure else store_insert ob b)"

text \<open>The stub collaborators with the cosine similarity as the metric of the store.\<close>

definition cosine_env :: env where
  "cosine_env = stub_env\<lparr>metric := cosine_similarity\<rparr>"

section \<open>The ranking of the store\<close>

lemma ranks_before_total: "ranks_before a b \<or> ranks_before b a"
  by (auto simp: ranks_before_def)

lemma ranks_before_trans: "ranks_before a b \<Longrightarrow> ranks_before b c \<Longrightarrow> ranks_before a c"
  by (auto simp: ranks_before_def)

lemma set_insert_ranked: "set (insert_ranked x xs) = insert x (set xs)"
  by (induction xs) auto

lemma length_insert_ranked: "length (insert_ranked x xs) = Suc (length xs)"
  by (induction xs) auto

lemma sorted_insert_ranked:
  "sorted_wrt ranks_before xs \<Longrightarrow> sorted_wrt ranks_before (insert_ranked x xs)"
proof (induction xs)
  case Nil
  then show ?case by simp
next
  case (Cons y ys)
  show ?case
  proof (cases "ranks_before x y")
    case True
    with Cons.prems show ?thesis
      by (auto intro: ranks_before_trans)
  next
    case False
    then have "ranks_before y x"
      using ranks_before_total by blast
    with False Cons show ?thesis
      by (auto simp: set_insert_ranked)
  qed
qed

lemma set_sort_ranked: "set (sort_ranked xs) = set xs"
  by (induction xs) (auto simp: set_insert_ranked)

lemma length_sort_ranked: "length (sort_ranked xs) = length xs"
  by (induction xs) (auto simp: length_insert_ranked)

lemma sorted_sort_ranked: "sorted_wrt ranks_before (sort_ranked xs)"
  by (induction xs) (auto simp: sorted_insert_ranked)

lemma distinct_insert_ranked:
  "distinct (map key (insert_ranked x xs)) \<longleftrightarrow> key x \<notin> key ` set xs \<and> distinct (map key xs)"
  by (induction xs) (auto simp: set_insert_ranked)

lemma distinct_sort_ranked: "distinct (map key (sort_ranked xs)) \<longleftrightarrow> distinct (map key xs)"
  by (induction xs) (auto simp: distinct_insert_ranked set_sort_ranked)

lemma store_query_accepts:
  assumes "q \<noteq> []" and "store_dim c = None \<or> store_dim c = Some (length q)"
  shows "store_query sim q k (Some c) = Inr (take k (sort_ranked (map (scored sim q) (records c))))"
  using assms by (auto simp: store_query_def)

lemma searchDB_accepts:
  assumes "db s \<noteq> None" and "backing s = Some c" and "q \<noteq> []"
    and "store_dim c = None \<or> store_dim c = Some (length q)"
  shows "fst (searchDB e q k s) = take k (sort_ranked (map (scored (metric e) q) (records c)))"
  using assms by (cases "db s") (simp_all add: searchDB_def store_query_accepts)

section \<open>Search results (claim C1)\<close>

text \<open>
  Claim C1, as amended. When the store is initialised and the query vector is not empty and
  has the store's dimension, \<^verbatim>\<open>searchDB\<close> returns \<open>min k n\<close> results for a store of \<open>n\<close>
  records; they are in order of non-increasing similarity, and among equal similarities
  in order of ascending key; they are the first \<open>k\<close> of the ranking of the whole store,
  which holds every record with its score.
\<close>

theorem searchDB_ranked:
  assumes "db s \<noteq> None" and "backing s = Some c" and "q \<noteq> []"
    and "store_dim c = None \<or> store_dim c = Some (length q)"
  shows "length (fst (searchDB e q k s)) = min k (length (records c))
       \<and> sorted_wrt (\<lambda>a b. similarity b \<le> similarity a) (fst (searchDB e q k s))
       \<and> sorted_wrt (\<lambda>a b. similarity a = similarity b \<longrightarrow> key a \<le> key b) (fst (searchDB e q k s))
       \<and> fst (searchDB e q k s) = take k (fst (searchDB e q (length (records c)) s))
       \<and> set (fst (searchDB e q (length (records c)) s)) = scored (metric e) q ` set (records c)"
proof -
  let ?all = "sort_ranked (map (scored (metric e) q) (records c))"
  have res: "fst (searchDB e q j s) = take j ?all" for j
    using assms by (rule searchDB_accepts)
  have len: "length ?all = length (records c)"
    by (simp add: length_sort_ranked)
  have srt: "sorted_wrt ranks_before (take k ?all)"
    by (simp add: sorted_sort_ranked sorted_wrt_take)
  have s1: "sorted_wrt (\<lambda>a b. similarity b \<le> similarity a) (take k ?all)"
    by (rule sorted_wrt_mono_rel [OF _ srt]) (auto simp: ranks_before_def)
  have s2: "sorted_wrt (\<lambda>a b. similarity a = similarity b \<longrightarrow> key a \<le> key b) (take k ?all)"
    by (rule sorted_wrt_mono_rel [OF _ srt]) (auto simp: ranks_before_def)
  have full: "take (length (records c)) ?all = ?all"
    using len by simp
  show ?thesis
    using s1 s2 by (simp add: res len full set_sort_ranked min.commute)
qed

lemma example_dim: "store_dim example_collection = Some 2"
  by (simp add: store_dim_def example_collection_def)

text \<open>The amended claim on the specification's example store, for the query \<open>[1,0]\<close> and
  \<open>k = 2\<close>.\<close>

theorem searchDB_ranked_witness:
  "length (fst (searchDB stub_env [1, 0] 2 example_state)) = 2
   \<and> sorted_wrt (\<lambda>a b. similarity b \<le> similarity a) (fst (searchDB stub_env [1, 0] 2 example_state))"
proof -
  have h1: "db example_state \<noteq> None"
    by (simp add: example_state_def ready_state_def)
  have h2: "backing example_state = Some example_collection"
    by (simp add: example_state_def)
  have h3: "[1, 0 :: real] \<noteq> []"
    by simp
  have h4: "store_dim example_collection = None
          \<or> store_dim example_collection = Some (length [1, 0 :: real])"
    by (simp add: example_dim)
  have len: "length (records example_collection) = 3"
    by (simp add: example_collection_def)
  note r = searchDB_ranked [OF h1 h2 h3 h4, of stub_env 2]
  have a: "length (fst (searchDB stub_env [1, 0] 2 example_state)) = 2"
    using conjunct1 [OF r] by (simp add: len)
  have b: "sorted_wrt (\<lambda>a b. similarity b \<le> similarity a)
             (fst (searchDB stub_env [1, 0] 2 example_state))"
    by (rule conjunct1 [OF conjunct2 [OF r]])
  show ?thesis
    using a b by (rule conjI)
qed

text \<open>Claim C1 as first stated fails for the empty query vector: the guard of
  \<^verbatim>\<open>searchDB\<close> returns no result, whatever the store holds.\<close>

theorem searchDB_empty_query_counterexample:
  "length (fst (searchDB stub_env [] 1 example_state))
     \<noteq> min 1 (length (records (the (backing example_state))))"
  by (simp add: searchDB_def example_state_def ready_state_def example_collection_def)

section \<open>The similarity metric (claim C6)\<close>

lemma dot_commute: "dot a b = dot b a"
proof -
  have "sum_list (map2 (*) a b) = sum_list (map2 (*) b a)"
  proof (induction a arbitrary: b)
    case Nil
    then show ?case by simp
  next
    case (Cons x xs)
    then show ?case by (cases b) (simp_all add: mult.commute)
  qed
  then show ?thesis by (simp add: dot_def)
qed

lemma dot_self_nonneg: "0 \<le> dot a a"
  by (induction a) (simp_all add: dot_def)

lemma dot_self_zero: "dot a a = 0 \<longleftrightarrow> (\<forall>x\<in>set a. x = 0)"
proof (induction a)
  case Nil
  then show ?case by (simp add: dot_def)
next
  case (Cons x xs)
  have "0 \<le> dot xs xs" by (rule dot_self_nonneg)
  moreover have "dot (x # xs) (x # xs) = x * x + dot xs xs"
    by (simp add: dot_def)
  moreover have "0 \<le> x * x" by simp
  ultimately have "dot (x # xs) (x # xs) = 0 \<longleftrightarrow> x * x = 0 \<and> dot xs xs = 0"
    by (simp add: add_nonneg_eq_0_iff)
  with Cons show ?case by simp
qed

lemma vec_norm_zero: "vec_norm a = 0 \<longleftrightarrow> (\<forall>x\<in>set a. x = 0)"
  by (simp add: vec_norm_def dot_self_zero)

lemma vec_norm_square: "vec_norm a * vec_norm a = dot a a"
  using dot_self_nonneg [of a] by (simp add: vec_norm_def)

text \<open>
  Claim C6. The similarity metric is the cosine similarity dot(a,b) / (\<parallel>a\<parallel>\<cdot>\<parallel>b\<parallel>). It is
  symmetric; the similarity of a vector that is not the zero vector with itself is 1; the
  similarity is 0 as soon as one of the two vectors has norm zero, that is, has only zero
  entries; and where the quotient is formed, its divisor is not 0, so no division by zero
  takes place. The numbers are reals here, so the tolerance of the claim is not needed:
  the self-similarity is exactly 1.
\<close>

theorem cosine_similarity_laws:
  "cosine_similarity a b = cosine_similarity b a
   \<and> ((\<exists>x\<in>set a. x \<noteq> 0) \<longrightarrow> cosine_similarity a a = 1)
   \<and> ((\<forall>x\<in>set a. x = 0) \<or> (\<forall>x\<in>set b. x = 0) \<longrightarrow> cosine_similarity a b = 0)
   \<and> (vec_norm a \<noteq> 0 \<and> vec_norm b \<noteq> 0 \<longrightarrow>
        vec_norm a * vec_norm b \<noteq> 0
        \<and> cosine_similarity a b = dot a b / (vec_norm a * vec_norm b))"
proof -
  have sym: "cosine_similarity a b = cosine_similarity b a"
    by (simp add: cosine_similarity_def dot_commute [of a b] mult.commute)
  have self: "cosine_similarity a a = 1" if "\<exists>x\<in>set a. x \<noteq> 0"
  proof -
    from that have n: "vec_norm a \<noteq> 0"
      by (simp add: vec_norm_zero)
    then have "dot a a \<noteq> 0"
      using vec_norm_square [of a] by auto
    with n show ?thesis
      by (simp add: cosine_similarity_def vec_norm_square)
  qed
  have zero: "cosine_similarity a b = 0" if "(\<forall>x\<in>set a. x = 0) \<or> (\<forall>x\<in>set b. x = 0)"
    using that by (auto simp: cosine_similarity_def vec_norm_zero)
  have quot: "vec_norm a * vec_norm b \<noteq> 0
        \<and> cosine_similarity a b = dot a b / (vec_norm a * vec_norm b)"
    if "vec_norm a \<noteq> 0 \<and> vec_norm b \<noteq> 0"
    using that by (simp add: cosine_similarity_def)
  show ?thesis
    using sym self zero quot by blast
qed

text \<open>
  The claim on the vectors \<open>[3,4]\<close>, \<open>[1,0]\<close> and \<open>[0,0]\<close>.
\<close>

theorem cosine_similarity_laws_witness:
  "cosine_similarity [3, 4] [1, 0] = cosine_similarity [1, 0] [3, 4]
   \<and> cosine_similarity [3, 4] [3, 4] = 1
   \<and> cosine_similarity [0, 0] [3, 4] = 0"
proof -
  note r = cosine_similarity_laws [of "[3, 4]" "[1, 0]"]
  note z = cosine_similarity_laws [of "[0, 0]" "[3, 4]"]
  have nz: "\<exists>x\<in>set [3, 4 :: real]. x \<noteq> 0"
    by simp
  have az: "(\<forall>x\<in>set [0, 0 :: real]. x = 0) \<or> (\<forall>x\<in>set [3, 4 :: real]. x = 0)"
    by simp
  have a: "cosine_similarity [3, 4] [1, 0] = cosine_similarity [1, 0] [3, 4]"
    by (rule conjunct1 [OF r])
  have b: "cosine_similarity [3, 4] [3, 4] = 1"
    using conjunct1 [OF conjunct2 [OF r]] nz by blast
  have c: "cosine_similarity [0, 0] [3, 4] = 0"
    using conjunct1 [OF conjunct2 [OF conjunct2 [OF z]]] az by blast
  show ?thesis
    using a b c by blast
qed

text \<open>
  With this metric \<^verbatim>\<open>searchDB\<close> returns what the specification's example gives for its
  store: \<open>a\<close> (1) and \<open>c\<close> (1/\<surd>2) for the query \<open>[1,0]\<close> and \<open>k = 2\<close>, and one result of
  similarity 0 for the zero vector as the query.
\<close>

lemma example_scores:
  "cosine_similarity [1, 0] [1, 0] = 1"
  "cosine_similarity [1, 0] [0, 1] = 0"
  "cosine_similarity [1, 0] [1, 1] = 1 / sqrt 2"
  by (simp_all add: cosine_similarity_def vec_norm_def dot_def)

lemma example_rank_cosine:
  "map (\<lambda>r. (content (object r), similarity r)) (fst (searchDB cosine_env [1, 0] 2 example_state))
     = [(''a'', 1), (''c'', 1 / sqrt 2)]"
proof -
  have lt: "1 / sqrt 2 < (1::real)" "0 < 1 / sqrt (2::real)"
    by (simp_all add: real_less_rsqrt)
  show ?thesis
    using lt
    by (simp add: searchDB_def example_state_def ready_state_def example_collection_def
        store_query_def store_dim_def scored_def cosine_env_def ranks_before_def example_scores)
qed

lemma example_rank_zero_query:
  "map (\<lambda>r. (content (object r), similarity r)) (fst (searchDB cosine_env [0, 0] 1 example_state))
     = [(''a'', 0)]"
  by (simp add: searchDB_def example_state_def ready_state_def example_collection_def
        store_query_def store_dim_def scored_def cosine_env_def ranks_before_def
        cosine_similarity_def vec_norm_def dot_def)

section \<open>What the status helpers leave alone\<close>

lemma db_status_updates [simp]:
  "db (updateDbStatus m s) = db s"
  "db (updateModelStatus m l s) = db s"
  "db (updateAudioEmbedStatus m s) = db s"
  "db (console_log m s) = db s"
  "db (console_error m s) = db s"
  "db (console_warn m s) = db s"
  "db (alert m s) = db s"
  "db (disableControls d s) = db s"
  by (simp_all add: updateDbStatus_def updateModelStatus_def updateAudioEmbedStatus_def
      console_log_def console_error_def console_warn_def alert_def disableControls_def)

lemma backing_status_updates [simp]:
  "backing (updateDbStatus m s) = backing s"
  "backing (updateModelStatus m l s) = backing s"
  "backing (updateAudioEmbedStatus m s) = backing s"
  "backing (console_log m s) = backing s"
  "backing (console_error m s) = backing s"
  "backing (console_warn m s) = backing s"
  "backing (alert m s) = backing s"
  "backing (disableControls d s) = backing s"
  by (simp_all add: updateDbStatus_def updateModelStatus_def updateAudioEmbedStatus_def
      console_log_def console_error_def console_warn_def alert_def disableControls_def)

lemma objectURLs_updateModelStatus [simp]:
  "objectURLs (updateModelStatus m l s) = objectURLs s"
  by (simp add: updateModelStatus_def console_log_def)

lemma objectURLs_console_error [simp]: "objectURLs (console_error m s) = objectURLs s"
  by (simp add: console_error_def)

lemma embed_errors_log [simp]:
  "embed_errors (console_log m s) = embed_errors s"
  "embed_errors (updateAudioEmbedStatus m s) = embed_errors s"
  "embed_errors (updateModelStatus m l s) = embed_errors s"
  "embed_errors (updateDbStatus m s) = embed_errors s"
  "embed_errors (disableControls d s) = embed_errors s"
  by (simp_all add: embed_errors_def console_log_def updateAudioEmbedStatus_def
      updateModelStatus_def updateDbStatus_def disableControls_def)

lemma loop_ready_status [simp]:
  "loop_ready (updateAudioEmbedStatus m s) = loop_ready s"
  "loop_ready (disableControls d s) = loop_ready s"
  by (simp_all add: loop_ready_def updateAudioEmbedStatus_def console_log_def disableControls_def)

lemma all_disabled_status [simp]:
  "all_disabled (updateAudioEmbedStatus m s) = all_disabled s"
  "all_disabled (updateModelStatus m l s) = all_disabled s"
  "all_disabled (updateDbStatus m s) = all_disabled s"
  by (simp_all add: all_disabled_def updateAudioEmbedStatus_def updateModelStatus_def
      updateDbStatus_def console_log_def)

section \<open>Embedding before the models are loaded (claim C7)\<close>

text \<open>
  Claim C7. While the tokenizer or the text model is still \<^verbatim>\<open>null\<close>,
  \<^verbatim>\<open>getTextEmbedding\<close> returns \<^verbatim>\<open>null\<close> at once, and all it does is write the status
  line ``Text model or tokenizer not loaded.''; while the audio processor or the audio model
  is still \<^verbatim>\<open>null\<close>, \<^verbatim>\<open>getAudioEmbedding\<close> does the same with its own line. Neither
  result depends on the encoders, so none was called; the four model variables are
  afterwards what they were, so nothing was loaded; and no object URL was created.
\<close>

theorem embed_before_ready:
  "(tokenizer s = None \<or> textModel s = None \<longrightarrow>
      getTextEmbedding e text s
        = (None, updateModelStatus ''Text model or tokenizer not loaded.'' False s)
      \<and> modelStatus (snd (getTextEmbedding e text s)) = ''Text model or tokenizer not loaded.''
      \<and> tokenizer (snd (getTextEmbedding e text s)) = tokenizer s
      \<and> textModel (snd (getTextEmbedding e text s)) = textModel s
      \<and> audioProcessor (snd (getTextEmbedding e text s)) = audioProcessor s
      \<and> audioModel (snd (getTextEmbedding e text s)) = audioModel s)
   \<and> (audioProcessor s = None \<or> audioModel s = None \<longrightarrow>
      getAudioEmbedding e audioFile s
        = (None, updateModelStatus ''Audio model or processor not loaded.'' False s)
      \<and> modelStatus (snd (getAudioEmbedding e audioFile s)) = ''Audio model or processor not loaded.''
      \<and> tokenizer (snd (getAudioEmbedding e audioFile s)) = tokenizer s
      \<and> textModel (snd (getAudioEmbedding e audioFile s)) = textModel s
      \<and> audioProcessor (snd (getAudioEmbedding e audioFile s)) = audioProcessor s
      \<and> audioModel (snd (getAudioEmbedding e audioFile s)) = audioModel s
      \<and> objectURLs (snd (getAudioEmbedding e audioFile s)) = objectURLs s)"
  by (simp add: getTextEmbedding_def getAudioEmbedding_def updateModelStatus_def console_log_def)

text \<open>
  The claim on the page before any model has loaded.
\<close>

theorem embed_before_ready_witness:
  "getTextEmbedding stub_env ''dog barking'' unloaded_state
     = (None, updateModelStatus ''Text model or tokenizer not loaded.'' False unloaded_state)
   \<and> textModel (snd (getTextEmbedding stub_env ''dog barking'' unloaded_state)) = None
   \<and> getAudioEmbedding stub_env dog_wav unloaded_state
     = (None, updateModelStatus ''Audio model or processor not loaded.'' False unloaded_state)
   \<and> audioModel (snd (getAudioEmbedding stub_env dog_wav unloaded_state)) = None"
proof -
  have t: "tokenizer unloaded_state = None \<or> textModel unloaded_state = None"
    by (simp add: unloaded_state_def)
  have a: "audioProcessor unloaded_state = None \<or> audioModel unloaded_state = None"
    by (simp add: unloaded_state_def)
  have n: "textModel unloaded_state = None" "audioModel unloaded_state = None"
    by (simp_all add: unloaded_state_def)
  note r = embed_before_ready [of unloaded_state stub_env "''dog barking''" dog_wav]
  from conjunct1 [OF r] t
  have x: "getTextEmbedding stub_env ''dog barking'' unloaded_state
             = (None, updateModelStatus ''Text model or tokenizer not loaded.'' False unloaded_state)"
    and x': "textModel (snd (getTextEmbedding stub_env ''dog barking'' unloaded_state))
             = textModel unloaded_state"
    by blast+
  from conjunct2 [OF r] a
  have y: "getAudioEmbedding stub_env dog_wav unloaded_state
             = (None, updateModelStatus ''Audio model or processor not loaded.'' False unloaded_state)"
    and y': "audioModel (snd (getAudioEmbedding stub_env dog_wav unloaded_state))
             = audioModel unloaded_state"
    by blast+
  show ?thesis
    using x x' y y' n by (simp only:)
qed

section \<open>Object URLs (claim C10)\<close>

lemma fold_max_ge: "a \<le> fold max xs (a::nat)"
  by (induction xs arbitrary: a) (auto intro: order_trans [OF max.cobounded2])

lemma fold_max_bound: "x \<in> set xs \<Longrightarrow> x \<le> fold max xs (a::nat)"
proof (induction xs arbitrary: a)
  case Nil
  then show ?case by simp
next
  case (Cons y ys)
  show ?case
  proof (cases "x = y")
    case True
    have "y \<le> max y a" by simp
    also have "\<dots> \<le> fold max ys (max y a)" by (rule fold_max_ge)
    finally show ?thesis using True by simp
  next
    case False
    with Cons show ?thesis by simp
  qed
qed

lemma fresh_url_fresh: "fresh_url live \<notin> set live"
proof
  assume "fresh_url live \<in> set live"
  then have "fresh_url live \<le> fold max live 0" by (rule fold_max_bound)
  then show False by (simp add: fresh_url_def)
qed

lemma filter_fresh_url: "filter (\<lambda>v. v \<noteq> fresh_url live) live = live"
  using fresh_url_fresh [of live] by (auto simp: filter_id_conv)

text \<open>
  Claim C10. Whatever \<^verbatim>\<open>getAudioEmbedding\<close> returns (an embedding, or \<^verbatim>\<open>null\<close> after the
  decoder, the processor or the model has thrown, or \<^verbatim>\<open>null\<close> because the models are
  not loaded), the registry of live object URLs is afterwards what it was before the call,
  and the URL the call would create is not in it.
\<close>

theorem getAudioEmbedding_revokes:
  "objectURLs (snd (getAudioEmbedding e audioFile s)) = objectURLs s
   \<and> fresh_url (objectURLs s) \<notin> set (objectURLs (snd (getAudioEmbedding e audioFile s)))"
proof -
  have "objectURLs (snd (getAudioEmbedding e audioFile s)) = objectURLs s"
    by (simp add: getAudioEmbedding_def createObjectURL_def revokeObjectURL_def filter_fresh_url
        split: sum.split)
  then show ?thesis
    by (simp add: fresh_url_fresh)
qed

section \<open>Rejected queries (claim C8)\<close>

text \<open>
  Claim C8. For an empty query vector, and for one whose length is not the store's
  established dimensionality, \<^verbatim>\<open>searchDB\<close> returns the empty array, leaves the store as it
  is and reports the condition on a status line: ``Cannot search with empty embedding.'' from
  its own guard, or the store's \<^verbatim>\<open>DimensionMismatch\<close> through its \<^verbatim>\<open>catch\<close> block (or
  ``Database not initialized.'' when there is no handle at all).
\<close>

theorem searchDB_rejects:
  assumes "emb = [] \<or> (\<exists>c. backing s = Some c \<and> store_dim c \<noteq> None
                              \<and> store_dim c \<noteq> Some (length emb))"
  shows "fst (searchDB e emb k s) = []
       \<and> snd (searchDB e emb k s) =
           (if db s = None then updateDbStatus ''Database not initialized.'' s
            else if emb = [] then updateModelStatus ''Cannot search with empty embedding.'' False s
            else console_error ''DB search error: DimensionMismatch''
                   (updateDbStatus ''Error searching DB: DimensionMismatch'' s))
       \<and> backing (snd (searchDB e emb k s)) = backing s"
  using assms
  by (auto simp: searchDB_def store_query_def updateDbStatus_def updateModelStatus_def
      console_log_def console_error_def)

text \<open>
  The claim on the example store (dimension 2), for a query vector of length 3 and for the
  empty one.
\<close>

theorem searchDB_rejects_witness:
  "fst (searchDB stub_env [1, 0, 0] 10 example_state) = []
   \<and> dbStatus (snd (searchDB stub_env [1, 0, 0] 10 example_state))
       = ''Error searching DB: DimensionMismatch''
   \<and> fst (searchDB stub_env [] 10 example_state) = []
   \<and> modelStatus (snd (searchDB stub_env [] 10 example_state))
       = ''Cannot search with empty embedding.''"
proof -
  have d: "db example_state \<noteq> None"
    by (simp add: example_state_def ready_state_def)
  have h1: "[1, 0, 0 :: real] = [] \<or> (\<exists>c. backing example_state = Some c \<and> store_dim c \<noteq> None
              \<and> store_dim c \<noteq> Some (length [1, 0, 0 :: real]))"
    by (simp add: example_state_def store_dim_def example_collection_def)
  have h2: "([] :: real list) = [] \<or> (\<exists>c. backing example_state = Some c \<and> store_dim c \<noteq> None
              \<and> store_dim c \<noteq> Some (length ([] :: real list)))"
    by simp
  note r1 = searchDB_rejects [OF h1, of stub_env 10]
  note r2 = searchDB_rejects [OF h2, of stub_env 10]
  show ?thesis
    using r1 r2 d
    by (simp add: updateDbStatus_def updateModelStatus_def console_log_def console_error_def)
qed

section \<open>Rejected inserts (claim C5)\<close>

text \<open>
  Claim C5. When the store has established the dimensionality \<open>D\<close>, \<^verbatim>\<open>insertIntoDB\<close> of a
  vector of another length ends with the store's \<^verbatim>\<open>DimensionMismatch\<close> on the status line
  and in the console, and the store is exactly what it was: nothing padded or truncated has
  been added, and its size is unchanged.
\<close>

theorem insertIntoDB_dimension_mismatch:
  assumes "db s \<noteq> None" and "backing s = Some c" and "store_dim c = Some D"
    and "length emb \<noteq> D"
  shows "insertIntoDB cont emb tgs s
           = console_error ''DB insert error: DimensionMismatch''
               (updateDbStatus ''Error inserting into DB: DimensionMismatch'' s)
       \<and> backing (insertIntoDB cont emb tgs s) = Some c
       \<and> dbStatus (insertIntoDB cont emb tgs s) = ''Error inserting into DB: DimensionMismatch''"
  using assms
  by (auto simp: insertIntoDB_def store_insert_def updateDbStatus_def console_log_def
      console_error_def)

text \<open>
  The claim on the example store: a vector of length 3 leaves its three records alone.
\<close>

theorem insertIntoDB_dimension_mismatch_witness:
  "backing (insertIntoDB ''long.wav'' [1, 0, 0] [TAG_AUDIO] example_state) = Some example_collection
   \<and> length (records example_collection) = 3
   \<and> dbStatus (insertIntoDB ''long.wav'' [1, 0, 0] [TAG_AUDIO] example_state)
        = ''Error inserting into DB: DimensionMismatch''"
proof -
  have h1: "db example_state \<noteq> None"
    by (simp add: example_state_def ready_state_def)
  have h2: "backing example_state = Some example_collection"
    by (simp add: example_state_def)
  have h3: "store_dim example_collection = Some 2"
    by (simp add: store_dim_def example_collection_def)
  have h4: "length [1, 0, 0 :: real] \<noteq> 2"
    by simp
  note r = insertIntoDB_dimension_mismatch [OF h1 h2 h3 h4, of "''long.wav''" "[TAG_AUDIO]"]
  have len: "length (records example_collection) = 3"
    by (simp add: example_collection_def)
  show ?thesis
    using conjunct2 [OF r] len by simp
qed

section \<open>Clearing the store (claim C3)\<close>

lemma db_clearDB: "db (clearDB outcome s) = db s"
  by (cases outcome) (simp_all add: clearDB_def clearDB_begin_def)

lemma backing_clearDB_success: "db s \<noteq> None \<Longrightarrow> backing (clearDB DeleteSuccess s) = None"
  by (auto simp: clearDB_def clearDB_begin_def)

lemma insert_after_clear:
  assumes "db s \<noteq> None"
  shows "insertIntoDB cont emb tgs (clearDB DeleteSuccess s)
           = console_error ''DB insert error: NotInitialized''
               (updateDbStatus ''Error inserting into DB: NotInitialized'' (clearDB DeleteSuccess s))"
  using assms
  by (auto simp: insertIntoDB_def db_clearDB backing_clearDB_success store_insert_def)

lemma search_after_clear:
  assumes "db s \<noteq> None" and "q \<noteq> []"
  shows "searchDB e q k (clearDB DeleteSuccess s)
           = ([], console_error ''DB search error: NotInitialized''
               (updateDbStatus ''Error searching DB: NotInitialized'' (clearDB DeleteSuccess s)))"
  using assms
  by (auto simp: searchDB_def db_clearDB backing_clearDB_success store_query_def)

lemma insert_after_reinit:
  assumes "db s \<noteq> None"
  shows "backing (insertIntoDB cont emb tgs (initVectorDB None (clearDB DeleteSuccess s)))
           = Some \<lparr>records = [(1, \<lparr>content = cont, embedding = emb, tags = tgs\<rparr>)], nextKey = 2\<rparr>"
  using assms
  by (auto simp: insertIntoDB_def initVectorDB_def store_initialize_def backing_clearDB_success
      store_insert_def store_dim_def Let_def)

text \<open>
  Claim C3, as amended. \<^verbatim>\<open>clearDB\<close> never changes the handle \<^verbatim>\<open>db\<close>, whatever the
  outcome of the delete request. The guard ``Database not initialized.'' of
  \<^verbatim>\<open>insertIntoDB\<close> and \<^verbatim>\<open>searchDB\<close> fires when \<^verbatim>\<open>db\<close> is \<^verbatim>\<open>null\<close>, that is when the
  store was never initialised. After a successful clear the database is gone but the handle
  is still set: an insert or a query passes the guard and reaches the store, which refuses
  it (\<^verbatim>\<open>NotInitialized\<close>), and the refusal is reported as an insert or search error. After
  \<^verbatim>\<open>initVectorDB\<close> has run again, an insert succeeds and the store holds that one record.
\<close>

theorem clearDB_keeps_handle:
  "db (clearDB outcome s) = db s
   \<and> (db s = None \<longrightarrow>
        insertIntoDB cont emb tgs s = updateDbStatus ''Database not initialized.'' s
        \<and> searchDB e q k s = ([], updateDbStatus ''Database not initialized.'' s))
   \<and> (db s \<noteq> None \<longrightarrow>
        backing (clearDB DeleteSuccess s) = None
        \<and> insertIntoDB cont emb tgs (clearDB DeleteSuccess s)
            = console_error ''DB insert error: NotInitialized''
                (updateDbStatus ''Error inserting into DB: NotInitialized''
                   (clearDB DeleteSuccess s))
        \<and> (q \<noteq> [] \<longrightarrow> searchDB e q k (clearDB DeleteSuccess s)
            = ([], console_error ''DB search error: NotInitialized''
                (updateDbStatus ''Error searching DB: NotInitialized'' (clearDB DeleteSuccess s))))
        \<and> backing (insertIntoDB cont emb tgs (initVectorDB None (clearDB DeleteSuccess s)))
            = Some \<lparr>records = [(1, \<lparr>content = cont, embedding = emb, tags = tgs\<rparr>)],
                    nextKey = 2\<rparr>)"
  by (simp add: db_clearDB backing_clearDB_success insert_after_clear search_after_clear
      insert_after_reinit)
     (simp add: insertIntoDB_def searchDB_def)

text \<open>
  The amended claim on the example store, and the guard on a page without a handle.
\<close>

theorem clearDB_keeps_handle_witness:
  "db (clearDB DeleteSuccess example_state) = db example_state
   \<and> backing (clearDB DeleteSuccess example_state) = None
   \<and> dbStatus (insertIntoDB ''dog.wav'' [1, 0] [TAG_AUDIO] (clearDB DeleteSuccess example_state))
       = ''Error inserting into DB: NotInitialized''
   \<and> backing (insertIntoDB ''dog.wav'' [1, 0] [TAG_AUDIO]
        (initVectorDB None (clearDB DeleteSuccess example_state)))
       = Some \<lparr>records = [(1, \<lparr>content = ''dog.wav'', embedding = [1, 0], tags = [TAG_AUDIO]\<rparr>)],
               nextKey = 2\<rparr>
   \<and> insertIntoDB ''dog.wav'' [1, 0] [TAG_AUDIO] (unloaded_state\<lparr>db := None\<rparr>)
       = updateDbStatus ''Database not initialized.'' (unloaded_state\<lparr>db := None\<rparr>)"
proof -
  have d: "db example_state \<noteq> None"
    by (simp add: example_state_def ready_state_def)
  have n: "db (unloaded_state\<lparr>db := None\<rparr>) = None"
    by simp
  note r = clearDB_keeps_handle [of DeleteSuccess example_state "''dog.wav''" "[1, 0]" "[TAG_AUDIO]"
      stub_env "[1, 0]" 10]
  note u = clearDB_keeps_handle [of DeleteSuccess "unloaded_state\<lparr>db := None\<rparr>" "''dog.wav''" "[1, 0]"
      "[TAG_AUDIO]" stub_env "[1, 0]" 10]
  have a: "db (clearDB DeleteSuccess example_state) = db example_state"
    by (rule conjunct1 [OF r])
  have b: "backing (clearDB DeleteSuccess example_state) = None
        \<and> insertIntoDB ''dog.wav'' [1, 0] [TAG_AUDIO] (clearDB DeleteSuccess example_state)
            = console_error ''DB insert error: NotInitialized''
                (updateDbStatus ''Error inserting into DB: NotInitialized''
                   (clearDB DeleteSuccess example_state))
        \<and> backing (insertIntoDB ''dog.wav'' [1, 0] [TAG_AUDIO]
             (initVectorDB None (clearDB DeleteSuccess example_state)))
            = Some \<lparr>records = [(1, \<lparr>content = ''dog.wav'', embedding = [1, 0], tags = [TAG_AUDIO]\<rparr>)],
                    nextKey = 2\<rparr>"
    using conjunct2 [OF conjunct2 [OF r]] d by blast
  have c: "insertIntoDB ''dog.wav'' [1, 0] [TAG_AUDIO] (unloaded_state\<lparr>db := None\<rparr>)
       = updateDbStatus ''Database not initialized.'' (unloaded_state\<lparr>db := None\<rparr>)"
    using conjunct1 [OF conjunct2 [OF u]] n by blast
  show ?thesis
    using a b c by (simp add: console_error_def updateDbStatus_def console_log_def)
qed

text \<open>
  Claim C3 as first stated fails on the example store: after a successful clear the handle
  is still set, and the next insert is not stopped by ``Database not initialized.''.
\<close>

theorem clearDB_handle_counterexample:
  "db (clearDB DeleteSuccess example_state) \<noteq> None
   \<and> dbStatus (insertIntoDB ''dog.wav'' [1, 0] [TAG_AUDIO] (clearDB DeleteSuccess example_state))
       \<noteq> ''Database not initialized.''"
  by (simp add: clearDB_def clearDB_begin_def example_state_def ready_state_def insertIntoDB_def
      store_insert_def updateDbStatus_def console_log_def console_error_def)

section \<open>One operation at a time (claim C2)\<close>

text \<open>
  The three handlers that embed or search disable every control before their first
  \<^verbatim>\<open>await\<close>; while one of them is in flight every click is ignored. So in a run
  without a click on the clear button at most one operation is in flight at any time.
  \<^verbatim>\<open>clearDB\<close> changes no control.
\<close>

lemma all_disabled_disableControls: "all_disabled (disableControls True s)"
  by (simp add: all_disabled_def disableControls_def)

lemma handleEmbedAudioFolder_begin_disables:
  "handleEmbedAudioFolder_begin s = (Some files, s1) \<Longrightarrow> all_disabled s1"
  by (auto simp: handleEmbedAudioFolder_begin_def all_disabled_disableControls split: if_splits)

lemma handleTextSearch_begin_disables:
  "handleTextSearch_begin s = (Some query, s1) \<Longrightarrow> all_disabled s1"
  by (auto simp: handleTextSearch_begin_def Let_def all_disabled_disableControls split: if_splits)

lemma handleAudioFileSearch_begin_disables:
  "handleAudioFileSearch_begin s = (Some audioFile, s1) \<Longrightarrow> all_disabled s1"
  by (auto simp: handleAudioFileSearch_begin_def all_disabled_disableControls
      split: if_splits list.splits)

lemma click_disabled_ignored: "all_disabled (app y) \<Longrightarrow> click b y = y"
  by (cases b) (simp_all add: click_def all_disabled_def)

lemma clearDB_begin_leaves_controls:
  "clearDB_begin s = (True, s1) \<Longrightarrow> s1 = s"
  by (auto simp: clearDB_begin_def split: if_splits)

lemma started_task_blocks_clicks:
  assumes "\<not> button_disabled b (app y)" and "b \<noteq> ClearDbButton"
    and "listener b (app y) = (Some t, s1)"
  shows "click b' (click b y) = click b y"
proof -
  have "all_disabled s1"
    using assms(2,3)
    by (cases b)
       (auto dest: handleEmbedAudioFolder_begin_disables handleTextSearch_begin_disables
          handleAudioFileSearch_begin_disables split: prod.splits)
  moreover have "click b y = \<lparr>app = s1, running = running y @ [t]\<rparr>"
    using assms(1,3) by (simp add: click_def)
  ultimately show ?thesis
    by (simp add: click_disabled_ignored)
qed

lemma embed_then_clear_ignored:
  "running (click ClearDbButton (click EmbedAudioButton \<lparr>app = selected_state, running = []\<rparr>))
     = [EmbedTask [dog_wav]]"
  by (simp add: click_def clearDB_begin_def selected_state_def ready_state_def
      handleEmbedAudioFolder_begin_def updateAudioEmbedStatus_def console_log_def
      disableControls_def)

lemma clear_twice_both_running:
  "running (click ClearDbButton (click ClearDbButton \<lparr>app = selected_state, running = []\<rparr>))
     = [ClearTask, ClearTask]"
  by (simp add: click_def clearDB_begin_def selected_state_def ready_state_def)

lemma listener_task:
  assumes "b \<noteq> ClearDbButton" and "listener b s = (Some t, s1)"
  shows "t \<noteq> ClearTask \<and> all_disabled s1"
  using assms
  by (cases b)
     (auto dest: handleEmbedAudioFolder_begin_disables handleTextSearch_begin_disables
        handleAudioFileSearch_begin_disables split: prod.splits)

lemma click_keeps_one:
  assumes "one_at_a_time y" and "b \<noteq> ClearDbButton"
  shows "one_at_a_time (click b y)"
proof (cases "all_disabled (app y)")
  case True
  then show ?thesis
    using assms(1) by (simp add: click_disabled_ignored)
next
  case False
  with assms(1) have idle: "running y = []"
    by (auto simp: one_at_a_time_def)
  show ?thesis
  proof (cases "button_disabled b (app y)")
    case True
    then show ?thesis
      using assms(1) by (simp add: click_def)
  next
    case enabled: False
    obtain r s1 where l: "listener b (app y) = (r, s1)"
      by (cases "listener b (app y)")
    show ?thesis
    proof (cases r)
      case None
      with l enabled idle show ?thesis
        by (simp add: click_def one_at_a_time_def)
    next
      case (Some t)
      with l listener_task [OF assms(2), of "app y" t s1] enabled idle show ?thesis
        by (simp add: click_def one_at_a_time_def)
    qed
  qed
qed

lemma settle_keeps_one:
  assumes "one_at_a_time y"
  shows "one_at_a_time (settle e outcome t y)"
  using assms by (auto simp: one_at_a_time_def settle_def)

lemma run_keeps_one:
  assumes "one_at_a_time y" and "Click ClearDbButton \<notin> set evs"
  shows "one_at_a_time (run e evs y)"
  using assms
proof (induction evs arbitrary: y)
  case Nil
  then show ?case by simp
next
  case (Cons ev evs)
  have "one_at_a_time (step e ev y)"
  proof (cases ev)
    case (Click b)
    with Cons.prems show ?thesis
      by (auto intro: click_keeps_one)
  next
    case (Settle outcome t)
    with Cons.prems show ?thesis
      by (simp add: settle_keeps_one)
  qed
  with Cons show ?case
    by simp
qed

lemma no_clear_at_most_one:
  assumes "running y = []" and "Click ClearDbButton \<notin> set evs"
  shows "length (running (run e evs y)) \<le> 1"
proof -
  have "one_at_a_time y"
    using assms(1) by (simp add: one_at_a_time_def)
  then have "one_at_a_time (run e evs y)"
    using assms(2) by (rule run_keeps_one)
  then show ?thesis
    by (auto simp: one_at_a_time_def)
qed

text \<open>
  Claim C2 fails for the clear operation. On the ready page with a file selected, a click on
  the clear button issues the delete request and leaves every control enabled; a click on
  the embed button before the request has settled starts the batch run, and two operations
  are in flight.
\<close>

theorem clear_then_embed_both_running:
  "run stub_env [Click ClearDbButton] \<lparr>app = selected_state, running = []\<rparr>
     = \<lparr>app = selected_state, running = [ClearTask]\<rparr>
   \<and> \<not> embedAudioButton_disabled selected_state
   \<and> running (run stub_env [Click ClearDbButton, Click EmbedAudioButton]
        \<lparr>app = selected_state, running = []\<rparr>)
       = [ClearTask, EmbedTask [dog_wav]]"
  by (simp add: click_def clearDB_begin_def selected_state_def ready_state_def
      handleEmbedAudioFolder_begin_def)

section \<open>The batch run (claims C4 and C9)\<close>

lemma getAudioEmbedding_ready:
  assumes "loop_ready s"
  shows "fst (getAudioEmbedding e f s) = (case audio_embed e f of Inr v \<Rightarrow> Some v | Inl err \<Rightarrow> None)"
    and "backing (snd (getAudioEmbedding e f s)) = backing s"
    and "loop_ready (snd (getAudioEmbedding e f s))"
    and "embed_errors (snd (getAudioEmbedding e f s))
           = embed_errors s + (if isl (audio_embed e f) then 1 else 0)"
  using assms
  by (auto simp: getAudioEmbedding_def loop_ready_def createObjectURL_def revokeObjectURL_def
      updateModelStatus_def console_log_def console_error_def embed_errors_def
      split: sum.splits)

lemma insertIntoDB_ready:
  assumes "loop_ready s"
  shows "backing (insertIntoDB cont emb tgs s)
           = try_insert (backing s) \<lparr>content = cont, embedding = emb, tags = tgs\<rparr>"
    and "loop_ready (insertIntoDB cont emb tgs s)"
    and "embed_errors (insertIntoDB cont emb tgs s) = embed_errors s"
  using assms
  by (auto simp: insertIntoDB_def loop_ready_def try_insert_def updateDbStatus_def console_log_def
      console_error_def embed_errors_def split: sum.splits)

lemma embed_loop_effect:
  assumes "loop_ready s"
  shows "fst (embed_loop e n files count s) = count + length (batch_objects e files)
       \<and> backing (snd (embed_loop e n files count s))
           = foldl try_insert (backing s) (batch_objects e files)
       \<and> embed_errors (snd (embed_loop e n files count s))
           = embed_errors s + length (failed_files e files)
       \<and> loop_ready (snd (embed_loop e n files count s))"
  using assms
proof (induction files arbitrary: count s)
  case Nil
  then show ?case by (simp add: failed_files_def)
next
  case (Cons f fs)
  show ?case
  proof (cases "prefix ''audio/'' (ftype f)")
    case False
    with Cons show ?thesis
      by (simp add: failed_files_def)
  next
    case True
    let ?s1 = "updateAudioEmbedStatus
                 (''Embedding '' @ name f @ ''... ('' @ show_nat (count + 1) @ ''/''
                    @ show_nat n @ '')'') s"
    have r1: "loop_ready ?s1"
      using Cons.prems by simp
    obtain emb s2 where g: "getAudioEmbedding e f ?s1 = (emb, s2)"
      by (cases "getAudioEmbedding e f ?s1")
    note ga = getAudioEmbedding_ready [OF r1, of e f, unfolded g fst_conv snd_conv]
    show ?thesis
    proof (cases "audio_embed e f")
      case (Inl err)
      with ga have "emb = None" by simp
      with Cons.IH [of s2 count] ga True Inl g show ?thesis
        by (simp add: failed_files_def)
    next
      case (Inr v)
      with ga have e: "emb = Some v" by simp
      let ?s3 = "insertIntoDB (name f) v [TAG_AUDIO, ftype f] s2"
      note ib = insertIntoDB_ready [OF ga(3), of "name f" v "[TAG_AUDIO, ftype f]"]
      from Cons.IH [of ?s3 "count + 1"] ga ib True Inr g e show ?thesis
        by (simp add: failed_files_def)
    qed
  qed
qed

lemma batch_count: "length (batch_objects e files) + length (failed_files e files)
     + length (skipped_files files) = length files"
  by (induction files) (auto simp: failed_files_def skipped_files_def split: sum.splits)

lemma batch_processed:
  "length (batch_objects e files)
     = length files - length (failed_files e files) - length (skipped_files files)"
  using batch_count [of e files] by simp

lemma try_insert_cases:
  "try_insert (Some c) ob = Some c
   \<or> try_insert (Some c) ob
        = Some (c\<lparr>records := records c @ [(nextKey c, ob)], nextKey := Suc (nextKey c)\<rparr>)"
  by (simp add: try_insert_def store_insert_def)

lemma keys_ok_append:
  "keys_ok c \<Longrightarrow> keys_ok (c\<lparr>records := records c @ [(nextKey c, ob)], nextKey := Suc (nextKey c)\<rparr>)"
  by (auto simp: keys_ok_def sorted_wrt_append list_all_iff less_Suc_eq)

lemma fold_try_insert:
  "\<exists>c' new. foldl try_insert (Some c) obs = Some c' \<and> records c' = records c @ new
      \<and> subseq (map snd new) obs \<and> (keys_ok c \<longrightarrow> keys_ok c')"
proof (induction obs arbitrary: c)
  case Nil
  then show ?case by simp
next
  case (Cons ob obs)
  from try_insert_cases [of c ob] show ?case
  proof
    assume same: "try_insert (Some c) ob = Some c"
    from Cons [of c] obtain c' new where
      h: "foldl try_insert (Some c) obs = Some c'" "records c' = records c @ new"
        "subseq (map snd new) obs" "keys_ok c \<longrightarrow> keys_ok c'"
      by blast
    from h same show ?thesis
      by (auto intro: subseq_Cons')
  next
    let ?c1 = "c\<lparr>records := records c @ [(nextKey c, ob)], nextKey := Suc (nextKey c)\<rparr>"
    assume ins: "try_insert (Some c) ob = Some ?c1"
    from Cons [of ?c1] obtain c' new where
      h: "foldl try_insert (Some ?c1) obs = Some c'" "records c' = records ?c1 @ new"
        "subseq (map snd new) obs" "keys_ok ?c1 \<longrightarrow> keys_ok c'"
      by blast
    have "records c' = records c @ ((nextKey c, ob) # new)"
      using h(2) by simp
    moreover have "subseq (map snd ((nextKey c, ob) # new)) (ob # obs)"
      using h(3) by simp
    moreover have "keys_ok c \<longrightarrow> keys_ok c'"
      using h(4) keys_ok_append by blast
    ultimately show ?thesis
      using h(1) ins by (intro exI [of _ c'] exI [of _ "(nextKey c, ob) # new"]) simp
  qed
qed

lemma subseq_batch_names: "subseq (map content (batch_objects e files)) (map name files)"
  by (induction files) (auto split: sum.splits)

lemma handleEmbedAudioFolder_run:
  assumes "audioFolderInput_files s \<noteq> []" and "loop_ready s"
  shows "handleEmbedAudioFolder e s
     = handleEmbedAudioFolder_rest e (audioFolderInput_files s)
         (updateAudioEmbedStatus
            (''Processing '' @ show_nat (length (audioFolderInput_files s)) @ '' files...'')
            (disableControls True s))"
  using assms
  by (auto simp: handleEmbedAudioFolder_def handleEmbedAudioFolder_begin_def loop_ready_def)

lemma handleEmbedAudioFolder_effect:
  assumes "audioFolderInput_files s = files" and "files \<noteq> []" and "loop_ready s"
  shows "audioEmbedStatus (handleEmbedAudioFolder e s)
           = ''Finished embedding '' @ show_nat (length (batch_objects e files)) @ '' audio files.''"
    and "backing (handleEmbedAudioFolder e s) = foldl try_insert (backing s) (batch_objects e files)"
    and "embed_errors (handleEmbedAudioFolder e s) = embed_errors s + length (failed_files e files)"
proof -
  let ?s0 = "updateAudioEmbedStatus
            (''Processing '' @ show_nat (length (audioFolderInput_files s)) @ '' files...'')
            (disableControls True s)"
  have r: "loop_ready ?s0"
    using assms(3) by simp
  obtain cnt s1 where l: "embed_loop e (length files) files 0 ?s0 = (cnt, s1)"
    by (cases "embed_loop e (length files) files 0 ?s0")
  note eff = embed_loop_effect [OF r, of e "length files" files 0, unfolded l fst_conv snd_conv]
  have run: "handleEmbedAudioFolder e s
      = disableControls False
          (updateAudioEmbedStatus (''Finished embedding '' @ show_nat cnt @ '' audio files.'') s1)"
    using handleEmbedAudioFolder_run [of s e] assms l
    by (simp add: handleEmbedAudioFolder_rest_def)
  show "audioEmbedStatus (handleEmbedAudioFolder e s)
           = ''Finished embedding '' @ show_nat (length (batch_objects e files)) @ '' audio files.''"
    using eff by (simp add: run disableControls_def updateAudioEmbedStatus_def console_log_def)
  show "backing (handleEmbedAudioFolder e s) = foldl try_insert (backing s) (batch_objects e files)"
    using eff by (simp add: run)
  show "embed_errors (handleEmbedAudioFolder e s) = embed_errors s + length (failed_files e files)"
    using eff by (simp add: run)
qed

lemma folder_files: "audioFolderInput_files folder_state = [dog_wav, notes_txt, bad_wav, cat_wav]"
  by (simp add: folder_state_def)

lemma folder_ready:
  "audioModel folder_state \<noteq> None" "audioProcessor folder_state \<noteq> None" "db folder_state \<noteq> None"
  "backing folder_state = Some \<lparr>records = [], nextKey = 1\<rparr>"
  by (simp_all add: folder_state_def ready_state_def)

lemma folder_batch:
  "batch_objects stub_env [dog_wav, notes_txt, bad_wav, cat_wav]
     = [\<lparr>content = ''dog.wav'', embedding = [1, 0], tags = [TAG_AUDIO, ''audio/wav'']\<rparr>,
        \<lparr>content = ''cat.wav'', embedding = [1, 0], tags = [TAG_AUDIO, ''audio/wav'']\<rparr>]"
  "failed_files stub_env [dog_wav, notes_txt, bad_wav, cat_wav] = [bad_wav]"
  "skipped_files [dog_wav, notes_txt, bad_wav, cat_wav] = [notes_txt]"
  by (simp_all add: stub_env_def dog_wav_def notes_txt_def bad_wav_def cat_wav_def
      failed_files_def skipped_files_def)

lemma insertIntoDB_via_store: "insertIntoDB_via store_insert cont emb tgs s = insertIntoDB cont emb tgs s"
  by (simp add: insertIntoDB_via_def insertIntoDB_def)

lemma embed_loop_via_store: "embed_loop_via store_insert e n files count s = embed_loop e n files count s"
  by (induction files arbitrary: count s)
     (simp_all add: insertIntoDB_via_store split: prod.splits option.splits)

lemma handleEmbedAudioFolder_via_store:
  "handleEmbedAudioFolder_via store_insert e s = handleEmbedAudioFolder e s"
  by (simp add: handleEmbedAudioFolder_via_def handleEmbedAudioFolder_def
      handleEmbedAudioFolder_rest_def embed_loop_via_store split: prod.splits option.splits)

lemma appends_one_store_insert: "appends_one store_insert"
  by (auto simp: appends_one_def store_insert_def split: option.splits if_splits)

lemma appends_one_flaky_insert: "appends_one flaky_insert"
  using appends_one_store_insert
  by (auto simp: appends_one_def flaky_insert_def split: if_splits)

lemma insert_errors_log [simp]:
  "insert_errors (console_log m s) = insert_errors s"
  "insert_errors (updateAudioEmbedStatus m s) = insert_errors s"
  "insert_errors (updateModelStatus m l s) = insert_errors s"
  "insert_errors (updateDbStatus m s) = insert_errors s"
  "insert_errors (disableControls d s) = insert_errors s"
  by (simp_all add: insert_errors_def console_log_def updateAudioEmbedStatus_def
      updateModelStatus_def updateDbStatus_def disableControls_def)

lemma store_size_status [simp]:
  "store_size (updateAudioEmbedStatus m s) = store_size s"
  "store_size (disableControls d s) = store_size s"
  by (simp_all add: store_size_def)

lemma getAudioEmbedding_store:
  assumes "loop_ready s"
  shows "store_size (snd (getAudioEmbedding e f s)) = store_size s"
    and "insert_errors (snd (getAudioEmbedding e f s)) = insert_errors s"
    and "backing (snd (getAudioEmbedding e f s)) = backing s"
  using assms
  by (auto simp: getAudioEmbedding_def loop_ready_def createObjectURL_def revokeObjectURL_def
      updateModelStatus_def console_log_def console_error_def insert_errors_def store_size_def
      split: sum.splits)

lemma insertIntoDB_via_account:
  assumes "loop_ready s" and "appends_one ins" and "backing s \<noteq> None"
  shows "store_size (insertIntoDB_via ins cont emb tgs s)
           + insert_errors (insertIntoDB_via ins cont emb tgs s)
         = Suc (store_size s + insert_errors s)"
    and "loop_ready (insertIntoDB_via ins cont emb tgs s)"
    and "embed_errors (insertIntoDB_via ins cont emb tgs s) = embed_errors s"
    and "backing (insertIntoDB_via ins cont emb tgs s) \<noteq> None"
proof -
  let ?ob = "\<lparr>content = cont, embedding = emb, tags = tgs\<rparr>"
  have d: "db s \<noteq> None"
    using assms(1) by (simp add: loop_ready_def)
  show "store_size (insertIntoDB_via ins cont emb tgs s)
           + insert_errors (insertIntoDB_via ins cont emb tgs s)
         = Suc (store_size s + insert_errors s)"
  proof (cases "ins ?ob (backing s)")
    case (Inl err)
    with d show ?thesis
      by (auto simp: insertIntoDB_via_def store_size_def insert_errors_def console_error_def
          updateDbStatus_def console_log_def)
  next
    case (Inr kc)
    obtain k c where kc: "kc = (k, c)" by (cases kc)
    obtain c0 where c0: "backing s = Some c0"
      using assms(3) by blast
    have "ins ?ob (Some c0) = Inr (k, c)"
      using Inr kc c0 by simp
    with assms(2) have "length (records c) = Suc (length (records c0))"
      unfolding appends_one_def by blast
    note c0 this
    with Inr kc d show ?thesis
      by (auto simp: insertIntoDB_via_def store_size_def insert_errors_def console_log_def)
  qed
  show "loop_ready (insertIntoDB_via ins cont emb tgs s)"
    using assms(1)
    by (auto simp: insertIntoDB_via_def loop_ready_def updateDbStatus_def console_log_def
        console_error_def split: sum.splits)
  show "embed_errors (insertIntoDB_via ins cont emb tgs s) = embed_errors s"
    using d
    by (auto simp: insertIntoDB_via_def embed_errors_def updateDbStatus_def console_log_def
        console_error_def split: sum.splits)
  show "backing (insertIntoDB_via ins cont emb tgs s) \<noteq> None"
    using assms(3) d
    by (auto simp: insertIntoDB_via_def split: sum.splits)
qed

lemma embed_loop_via_account:
  assumes "loop_ready s" and "appends_one ins" and "backing s \<noteq> None"
  shows "fst (embed_loop_via ins e n files count s) = count + length (batch_objects e files)
       \<and> embed_errors (snd (embed_loop_via ins e n files count s))
           = embed_errors s + length (failed_files e files)
       \<and> store_size (snd (embed_loop_via ins e n files count s))
           + insert_errors (snd (embed_loop_via ins e n files count s))
           = store_size s + insert_errors s + length (batch_objects e files)
       \<and> backing (snd (embed_loop_via ins e n files count s)) \<noteq> None"
  using assms
proof (induction files arbitrary: count s)
  case Nil
  then show ?case by (simp add: failed_files_def)
next
  case (Cons f fs)
  show ?case
  proof (cases "prefix ''audio/'' (ftype f)")
    case False
    let ?s1 = "updateAudioEmbedStatus (''Skipping non-audio file: '' @ name f) s"
    have "loop_ready ?s1" "backing ?s1 \<noteq> None"
      using Cons.prems by simp_all
    from Cons.IH [OF this(1) Cons.prems(2) this(2), of count] False show ?thesis
      by (simp add: failed_files_def)
  next
    case True
    let ?s1 = "updateAudioEmbedStatus
                 (''Embedding '' @ name f @ ''... ('' @ show_nat (count + 1) @ ''/''
                    @ show_nat n @ '')'') s"
    have r1: "loop_ready ?s1"
      using Cons.prems by simp
    obtain emb s2 where g: "getAudioEmbedding e f ?s1 = (emb, s2)"
      by (cases "getAudioEmbedding e f ?s1")
    note ga = getAudioEmbedding_ready [OF r1, of e f, unfolded g fst_conv snd_conv]
    note gs = getAudioEmbedding_store [OF r1, of e f, unfolded g fst_conv snd_conv]
    have b2: "backing s2 \<noteq> None"
      using gs(3) Cons.prems(3) by simp
    show ?thesis
    proof (cases "audio_embed e f")
      case (Inl err)
      with ga have "emb = None" by simp
      with Cons.IH [OF ga(3) Cons.prems(2) b2, of count] ga gs True Inl g show ?thesis
        by (simp add: failed_files_def)
    next
      case (Inr v)
      with ga have e: "emb = Some v" by simp
      let ?s3 = "insertIntoDB_via ins (name f) v [TAG_AUDIO, ftype f] s2"
      note ib = insertIntoDB_via_account [OF ga(3) Cons.prems(2) b2, of "name f" v "[TAG_AUDIO, ftype f]"]
      from Cons.IH [OF ib(2) Cons.prems(2) ib(4), of "count + 1"] ga gs ib(1,3) True Inr g e
      show ?thesis
        by (simp add: failed_files_def)
    qed
  qed
qed

text \<open>
  Claim C4, as amended. Take any \<^verbatim>\<open>db.insert\<close> whose successful insert adds one record.
  A batch run over \<open>N\<close> files, of which \<open>M\<close> fail encoding and \<open>skipped\<close> have no audio
  media type, ends with the count \<open>N - M - skipped\<close> on its last status line and with
  exactly \<open>M\<close> more encoding errors on record. Each of the \<open>N - M - skipped\<close> embedded files
  ends either as a new record of the store or as an insert failure on record, whatever
  happened to the files before it: the records gained and the insert failures recorded add
  up to \<open>N - M - skipped\<close>. So the store gains exactly \<open>N - M - skipped\<close> records when no
  insert fails, and one record less for every insert that fails; the count on the status
  line includes the files whose insert failed.
\<close>

theorem batch_embed_counts:
  assumes "audioFolderInput_files s = files" and "files \<noteq> []"
    and "audioModel s \<noteq> None" and "audioProcessor s \<noteq> None" and "db s \<noteq> None"
    and "backing s \<noteq> None" and "appends_one ins"
  shows "audioEmbedStatus (handleEmbedAudioFolder_via ins e s)
           = ''Finished embedding ''
               @ show_nat (length files - length (failed_files e files) - length (skipped_files files))
               @ '' audio files.''
       \<and> embed_errors (handleEmbedAudioFolder_via ins e s)
           = embed_errors s + length (failed_files e files)
       \<and> store_size (handleEmbedAudioFolder_via ins e s)
           + insert_errors (handleEmbedAudioFolder_via ins e s)
           = store_size s + insert_errors s
               + (length files - length (failed_files e files) - length (skipped_files files))
       \<and> (insert_errors (handleEmbedAudioFolder_via ins e s) = insert_errors s \<longrightarrow>
            store_size (handleEmbedAudioFolder_via ins e s)
              = store_size s
                  + (length files - length (failed_files e files) - length (skipped_files files)))"
proof -
  let ?s0 = "updateAudioEmbedStatus
            (''Processing '' @ show_nat (length (audioFolderInput_files s)) @ '' files...'')
            (disableControls True s)"
  have "loop_ready s"
    using assms(3-5) by (simp add: loop_ready_def)
  then have r: "loop_ready ?s0" "backing ?s0 \<noteq> None"
    using assms(6) by simp_all
  have beg: "handleEmbedAudioFolder_begin s = (Some files, ?s0)"
    using assms(1-5) by (auto simp: handleEmbedAudioFolder_begin_def)
  obtain cnt s1 where l: "embed_loop_via ins e (length files) files 0 ?s0 = (cnt, s1)"
    by (cases "embed_loop_via ins e (length files) files 0 ?s0")
  note eff = embed_loop_via_account [OF r(1) assms(7) r(2), of e "length files" files 0,
      unfolded l fst_conv snd_conv]
  have run: "handleEmbedAudioFolder_via ins e s
      = disableControls False
          (updateAudioEmbedStatus (''Finished embedding '' @ show_nat cnt @ '' audio files.'') s1)"
    using beg l by (simp add: handleEmbedAudioFolder_via_def)
  have p: "length (batch_objects e files)
     = length files - length (failed_files e files) - length (skipped_files files)"
    by (rule batch_processed)
  have a: "audioEmbedStatus (handleEmbedAudioFolder_via ins e s)
           = ''Finished embedding '' @ show_nat (length (batch_objects e files)) @ '' audio files.''"
    using eff by (simp add: run disableControls_def updateAudioEmbedStatus_def console_log_def)
  have b: "embed_errors (handleEmbedAudioFolder_via ins e s)
           = embed_errors s + length (failed_files e files)"
    using eff by (simp add: run)
  have c: "store_size (handleEmbedAudioFolder_via ins e s)
           + insert_errors (handleEmbedAudioFolder_via ins e s)
           = store_size s + insert_errors s + length (batch_objects e files)"
    using eff by (simp add: run)
  show ?thesis
    using a b c by (simp only: p) simp
qed

text \<open>
  The amended claim on a selection of four files, of which one is skipped and one fails
  encoding: with the insert whose write of \<^verbatim>\<open>cat.wav\<close> throws, one file is stored and one
  insert failure is on record; with the store's own insert both files are stored.
\<close>

theorem batch_embed_counts_witness:
  "audioEmbedStatus (handleEmbedAudioFolder_via flaky_insert stub_env folder_state)
     = ''Finished embedding 2 audio files.''
   \<and> embed_errors (handleEmbedAudioFolder_via flaky_insert stub_env folder_state) = 1
   \<and> store_size (handleEmbedAudioFolder_via flaky_insert stub_env folder_state)
       + insert_errors (handleEmbedAudioFolder_via flaky_insert stub_env folder_state) = 2
   \<and> insert_errors (handleEmbedAudioFolder_via flaky_insert stub_env folder_state) = 1
   \<and> insert_errors (handleEmbedAudioFolder_via store_insert stub_env folder_state) = 0
   \<and> store_size (handleEmbedAudioFolder_via store_insert stub_env folder_state) = 2"
proof -
  have nonempty: "[dog_wav, notes_txt, bad_wav, cat_wav] \<noteq> []"
    by simp
  have b: "backing folder_state \<noteq> None"
    by (simp add: folder_ready)
  note r = batch_embed_counts [OF folder_files nonempty folder_ready(1-3) b appends_one_flaky_insert,
      of stub_env]
  note r' = batch_embed_counts [OF folder_files nonempty folder_ready(1-3) b appends_one_store_insert,
      of stub_env]
  have none: "embed_errors folder_state = 0" "insert_errors folder_state = 0"
    "store_size folder_state = 0"
    by (simp_all add: embed_errors_def insert_errors_def store_size_def folder_state_def
        ready_state_def)
  have two: "show_nat 2 = ''2''"
    by (simp add: show_nat.simps digit_def)
  have p: "length [dog_wav, notes_txt, bad_wav, cat_wav]
             - length (failed_files stub_env [dog_wav, notes_txt, bad_wav, cat_wav])
             - length (skipped_files [dog_wav, notes_txt, bad_wav, cat_wav]) = 2"
    by (simp only: folder_batch) simp
  have x: "audioEmbedStatus (handleEmbedAudioFolder_via flaky_insert stub_env folder_state)
     = ''Finished embedding 2 audio files.''"
    using conjunct1 [OF r] by (simp only: p two) simp
  have y: "embed_errors (handleEmbedAudioFolder_via flaky_insert stub_env folder_state) = 1"
    using conjunct1 [OF conjunct2 [OF r]] by (simp only: none folder_batch) simp
  have z: "store_size (handleEmbedAudioFolder_via flaky_insert stub_env folder_state)
       + insert_errors (handleEmbedAudioFolder_via flaky_insert stub_env folder_state) = 2"
    using conjunct1 [OF conjunct2 [OF conjunct2 [OF r]]] by (simp only: none p)
  have w: "insert_errors (handleEmbedAudioFolder_via flaky_insert stub_env folder_state) = 1"
    by code_simp
  have v: "insert_errors (handleEmbedAudioFolder_via store_insert stub_env folder_state) = 0"
    by code_simp
  have u: "store_size (handleEmbedAudioFolder_via store_insert stub_env folder_state) = 2"
    using conjunct2 [OF conjunct2 [OF conjunct2 [OF r']]] v by (simp only: none p)
  show ?thesis
    using x y z w v u by blast
qed

text \<open>
  Claim C4 as first stated fails when an insert throws: of two audio files, none skipped and
  none failing encoding, the write of the second throws. \<^verbatim>\<open>insertIntoDB\<close> catches and
  reports it and returns, the loop counts the file, the run reports 2 files, and the store
  has gained 1 record.
\<close>

theorem batch_embed_counts_counterexample:
  "audioFolderInput_files pair_state = [dog_wav, cat_wav]
   \<and> failed_files stub_env [dog_wav, cat_wav] = []
   \<and> skipped_files [dog_wav, cat_wav] = []
   \<and> audioEmbedStatus (handleEmbedAudioFolder_via flaky_insert stub_env pair_state)
       = ''Finished embedding 2 audio files.''
   \<and> store_size pair_state = 0
   \<and> store_size (handleEmbedAudioFolder_via flaky_insert stub_env pair_state) = 1
   \<and> console (handleEmbedAudioFolder_via flaky_insert stub_env pair_state)
       = [(Log, ''Processing 2 files...''),
          (Log, ''Embedding dog.wav... (1/2)''), (Log, ''Inserted: dog.wav''),
          (Log, ''Embedding cat.wav... (2/2)''),
          (Log, ''Error inserting into DB: IOFailure''),
          (Error, ''DB insert error: IOFailure''),
          (Log, ''Finished embedding 2 audio files.'')]"
  by code_simp

lemma distinct_sorted_wrt_neq: "distinct (map f xs) \<Longrightarrow> sorted_wrt (\<lambda>a b. f a \<noteq> f b) xs"
  by (induction xs) auto

lemma sorted_wrt_both:
  "sorted_wrt P xs \<Longrightarrow> sorted_wrt Q xs \<Longrightarrow> sorted_wrt (\<lambda>a b. P a b \<and> Q a b) xs"
  by (induction xs) auto

lemma ranking_ties_strict:
  assumes "keys_ok c"
  shows "sorted_wrt (\<lambda>a b. similarity a = similarity b \<longrightarrow> key a < key b)
           (take k (sort_ranked (map (scored sim q) (records c))))"
proof -
  let ?all = "sort_ranked (map (scored sim q) (records c))"
  have "map key (map (scored sim q) (records c)) = map fst (records c)"
    by (simp add: scored_def)
  moreover have "distinct (map fst (records c))"
    using assms by (simp add: keys_ok_def strict_sorted_iff)
  ultimately have "distinct (map key (map (scored sim q) (records c)))"
    by (simp only:)
  then have "distinct (map key ?all)"
    by (simp only: distinct_sort_ranked)
  then have "sorted_wrt (\<lambda>a b. key a \<noteq> key b) ?all"
    by (rule distinct_sorted_wrt_neq)
  with sorted_sort_ranked [of "map (scored sim q) (records c)"]
  have "sorted_wrt (\<lambda>a b. ranks_before a b \<and> key a \<noteq> key b) ?all"
    by (rule sorted_wrt_both)
  then have "sorted_wrt (\<lambda>a b. similarity a = similarity b \<longrightarrow> key a < key b) ?all"
    by (rule sorted_wrt_mono_rel [rotated]) (auto simp: ranks_before_def)
  then show ?thesis
    by (rule sorted_wrt_take)
qed

lemma searchDB_results:
  "fst (searchDB e q k s) = []
   \<or> (\<exists>c. backing s = Some c
         \<and> fst (searchDB e q k s) = take k (sort_ranked (map (scored (metric e) q) (records c))))"
  by (auto simp: searchDB_def store_query_def split: option.splits)

text \<open>
  Claim C9. A batch run hands the embedded files to the store one after the other in the
  order of the selection. The records it adds come after the old ones, in the order of the
  files they were made from, and the keys of the store stay strictly ascending: key order is
  insert order is file order. In every later search, results of equal similarity appear in
  order of ascending key, hence in the order in which their files were supplied.
\<close>

theorem batch_embed_order:
  assumes "audioFolderInput_files s = files" and "files \<noteq> []"
    and "audioModel s \<noteq> None" and "audioProcessor s \<noteq> None" and "db s \<noteq> None"
    and "backing s = Some c" and "keys_ok c"
  shows "backing (handleEmbedAudioFolder e s) = foldl try_insert (Some c) (batch_objects e files)
       \<and> (\<exists>c' new. backing (handleEmbedAudioFolder e s) = Some c'
             \<and> records c' = records c @ new
             \<and> subseq (map snd new) (batch_objects e files)
             \<and> subseq (map (content \<circ> snd) new) (map name files)
             \<and> sorted_wrt (<) (map fst (records c')))
       \<and> sorted_wrt (\<lambda>a b. similarity a = similarity b \<longrightarrow> key a < key b)
            (fst (searchDB e q k (handleEmbedAudioFolder e s)))"
proof -
  have r: "loop_ready s"
    using assms(3-5) by (simp add: loop_ready_def)
  let ?s' = "handleEmbedAudioFolder e s"
  have b: "backing ?s' = foldl try_insert (Some c) (batch_objects e files)"
    using handleEmbedAudioFolder_effect(2) [OF assms(1,2) r, of e] assms(6) by simp
  from fold_try_insert [of c "batch_objects e files"] assms(7) obtain c' new where
    h: "foldl try_insert (Some c) (batch_objects e files) = Some c'"
       "records c' = records c @ new" "subseq (map snd new) (batch_objects e files)"
       "keys_ok c'"
    by blast
  have "subseq (map content (map snd new)) (map content (batch_objects e files))"
    using h(3) by (rule subseq_map)
  then have names: "subseq (map (content \<circ> snd) new) (map name files)"
    using subseq_batch_names [of e files] by (auto intro: subseq_order.order_trans)
  have keys: "sorted_wrt (<) (map fst (records c'))"
    using h(4) by (simp add: keys_ok_def)
  have ties: "sorted_wrt (\<lambda>a b. similarity a = similarity b \<longrightarrow> key a < key b)
            (fst (searchDB e q k ?s'))"
    using searchDB_results [of e q k ?s'] ranking_ties_strict [OF h(4)] b h(1)
    by auto
  show ?thesis
    using b h(1,2,3) names keys ties by simp
qed

text \<open>
  The claim on the selection of four files: the two inserted files tie for the query
  \<open>[1,0]\<close> and are returned in file order.
\<close>

theorem batch_embed_order_witness:
  "backing (handleEmbedAudioFolder stub_env folder_state)
     = foldl try_insert (Some \<lparr>records = [], nextKey = 1\<rparr>)
         (batch_objects stub_env [dog_wav, notes_txt, bad_wav, cat_wav])
   \<and> sorted_wrt (\<lambda>a b. similarity a = similarity b \<longrightarrow> key a < key b)
        (fst (searchDB stub_env [1, 0] 10 (handleEmbedAudioFolder stub_env folder_state)))
   \<and> map (\<lambda>r. (content (object r), key r))
        (fst (searchDB stub_env [1, 0] 10 (handleEmbedAudioFolder stub_env folder_state)))
       = [(''dog.wav'', 1), (''cat.wav'', 2)]"
proof -
  have nonempty: "[dog_wav, notes_txt, bad_wav, cat_wav] \<noteq> []"
    by simp
  have k: "keys_ok \<lparr>records = [], nextKey = 1\<rparr>"
    by (simp add: keys_ok_def)
  note r = batch_embed_order [OF folder_files nonempty folder_ready k, of stub_env "[1, 0]" 10]
  have a: "backing (handleEmbedAudioFolder stub_env folder_state)
     = foldl try_insert (Some \<lparr>records = [], nextKey = 1\<rparr>)
         (batch_objects stub_env [dog_wav, notes_txt, bad_wav, cat_wav])"
    by (rule conjunct1 [OF r])
  have b: "sorted_wrt (\<lambda>a b. similarity a = similarity b \<longrightarrow> key a < key b)
        (fst (searchDB stub_env [1, 0] 10 (handleEmbedAudioFolder stub_env folder_state)))"
    by (rule conjunct2 [OF conjunct2 [OF r]])
  have c: "map (\<lambda>r. (content (object r), key r))
        (fst (searchDB stub_env [1, 0] 10 (handleEmbedAudioFolder stub_env folder_state)))
       = [(''dog.wav'', 1), (''cat.wav'', 2)]"
    by code_simp
  show ?thesis
    using a b c by blast
qed

end
